theory Spec2Isabelle
  imports Complex_Main "HOL-Library.Sublist" "HOL-Library.Word"
begin

unbundle bit_operations_syntax

section \<open>Numbers and their rendering\<close>

text \<open>
  JavaScript numbers are modelled by exact reals: the arithmetic of the source is read
  without IEEE-754 rounding. The three non-finite values are kept apart, since
  \<^verbatim>\<open>formatDistance\<close> tests for them.
\<close>

datatype number = Num real | NaN | PosInfinity | NegInfinity








section \<open>Distance formatting\<close>


section \<open>Instruction text\<close>

text \<open>
  Strings are lists of 8-bit characters; the instruction texts of the directions
  provider are read as ASCII. \<open>isSpace\<close> is the ASCII part of the regular expression
  class \<^verbatim>\<open>\s\<close>, \<open>isLetter\<close> is \<^verbatim>\<open>[A-Za-z]\<close>, and \<open>isLineTerminator\<close> lists the
  characters that \<^verbatim>\<open>.\<close> does not match.
\<close>

definition isSpace :: "char \<Rightarrow> bool" where
  "isSpace c = (c = CHR '' '' \<or> c = CHR 0x09 \<or> c = CHR 0x0A \<or> c = CHR 0x0B \<or> c = CHR 0x0C \<or> c = CHR 0x0D)"

definition isLineTerminator :: "char \<Rightarrow> bool" where
  "isLineTerminator c = (c = CHR 0x0A \<or> c = CHR 0x0D)"

definition isUpper :: "char \<Rightarrow> bool" where
  "isUpper c = (65 \<le> (of_char c :: nat) \<and> (of_char c :: nat) \<le> 90)"

definition isLetter :: "char \<Rightarrow> bool" where
  "isLetter c = (isUpper c \<or> (97 \<le> (of_char c :: nat) \<and> (of_char c :: nat) \<le> 122))"

definition toLowerChar :: "char \<Rightarrow> char" where
  "toLowerChar c = (if isUpper c then char_of ((of_char c :: nat) + 32) else c)"

definition toLowerCase :: "string \<Rightarrow> string" where
  "toLowerCase s = map toLowerChar s"

text \<open>\<^verbatim>\<open>String.prototype.trim\<close>.\<close>

definition trim :: "string \<Rightarrow> string" where
  "trim s = rev (dropWhile isSpace (rev (dropWhile isSpace s)))"

text \<open>
  \<^verbatim>\<open>
  const stripHtmlTags = (value: string): string =>
    value.replace(/<[^>]*>?/g, "").replace(/&nbsp;/g, " ")
  \<close>
  The first replacement deletes, from each \<^verbatim>\<open><\<close>, everything up to and including the next
  \<^verbatim>\<open>>\<close> (or up to the end of the text when there is none): \<open>removeTags\<close> scans with a flag
  that says whether it is inside such a match.
\<close>

fun removeTags :: "bool \<Rightarrow> string \<Rightarrow> string" where
  "removeTags inTag [] = []"
| "removeTags False (c # cs) = (if c = CHR ''<'' then removeTags True cs else c # removeTags False cs)"
| "removeTags True (c # cs) = (if c = CHR ''>'' then removeTags False cs else removeTags True cs)"

fun replaceNbsp :: "string \<Rightarrow> string" where
  "replaceNbsp [] = []"
| "replaceNbsp (c # cs) =
     (if prefix ''&nbsp;'' (c # cs) then CHR '' '' # replaceNbsp (drop 5 cs) else c # replaceNbsp cs)"

definition stripHtmlTags :: "string \<Rightarrow> string" where
  "stripHtmlTags v = replaceNbsp (removeTags False v)"

text \<open>\<^verbatim>\<open>.replace(/\s+/g, " ")\<close>: every maximal run of white space becomes one blank.\<close>

fun collapseSpaces :: "bool \<Rightarrow> string \<Rightarrow> string" where
  "collapseSpaces inRun [] = []"
| "collapseSpaces False (c # cs) =
     (if isSpace c then CHR '' '' # collapseSpaces True cs else c # collapseSpaces False cs)"
| "collapseSpaces True (c # cs) =
     (if isSpace c then collapseSpaces True cs else c # collapseSpaces False cs)"

text \<open>
  \<^verbatim>\<open>cleaned.match(/^Head\s+([A-Za-z]+)(.*)$/)\<close>: the two groups, when the text matches.
\<close>

definition headMatch :: "string \<Rightarrow> (string \<times> string) option" where
  "headMatch cleaned =
     (if prefix ''Head'' cleaned then
        (let afterHead = drop 4 cleaned;
             afterSpaces = dropWhile isSpace afterHead;
             direction = takeWhile isLetter afterSpaces;
             rest = dropWhile isLetter afterSpaces
         in if takeWhile isSpace afterHead = [] \<or> direction = [] \<or> (\<exists>c \<in> set rest. isLineTerminator c)
            then None else Some (direction, rest))
      else None)"

definition straightWords :: "string list" where
  "straightWords = [''north'', ''south'', ''east'', ''west'',
                    ''northeast'', ''northwest'', ''southeast'', ''southwest'']"

text \<open>\<^verbatim>\<open>remainder.replace(/^on\s+/i, "on ")\<close>.\<close>

definition replaceLeadingOn :: "string \<Rightarrow> string" where
  "replaceLeadingOn r =
     (if toLowerCase (take 2 r) = ''on'' \<and> takeWhile isSpace (drop 2 r) \<noteq> []
      then ''on '' @ dropWhile isSpace (drop 2 r) else r)"

text \<open>
  \<^verbatim>\<open>
  const normalizeInstruction = (value: string): string => {
    const cleaned = stripHtmlTags(value).replace(/\s+/g, " ").trim()
    const headMatch = cleaned.match(/^Head\s+([A-Za-z]+)(.*)$/)
    if (headMatch) {
      const direction = headMatch[1].toLowerCase()
      const remainder = headMatch[2].trim()
      const straightWords = new Set(["north", "south", "east", "west",
        "northeast", "northwest", "southeast", "southwest"])
      if (straightWords.has(direction)) {
        const suffix = remainder ? ` ${remainder.replace(/^on\s+/i, "on ")}` : ""
        return `Go straight${suffix}`.trim()
      }
    }
    return cleaned
  }
  \<close>
\<close>

definition normalizeInstruction :: "string \<Rightarrow> string" where
  "normalizeInstruction v =
     (let cleaned = trim (collapseSpaces False (stripHtmlTags v)) in
      case headMatch cleaned of
        Some (dir, rest) \<Rightarrow>
          (let direction = toLowerCase dir; remainder = trim rest in
           if direction \<in> set straightWords then
             (let suffix = (if remainder \<noteq> [] then '' '' @ replaceLeadingOn remainder else [])
              in trim (''Go straight'' @ suffix))
           else cleaned)
      | None \<Rightarrow> cleaned)"

text \<open>\<open>contains pat s\<close>: the regular expression \<^verbatim>\<open>/pat/\<close> of a literal text \<open>pat\<close> matches
  somewhere in \<open>s\<close>.\<close>

fun contains :: "string \<Rightarrow> string \<Rightarrow> bool" where
  "contains pat [] = (pat = [])"
| "contains pat (c # cs) = (prefix pat (c # cs) \<or> contains pat cs)"

datatype turnType = straight | left | right | slight_left | slight_right | u_turn

text \<open>
  \<^verbatim>\<open>
  const extractTurnType = (raw: string) => {
    const text = raw.toLowerCase()
    if (/u-turn|u turn/.test(text)) return "u_turn"
    if (/slight left/.test(text)) return "slight_left"
    if (/slight right/.test(text)) return "slight_right"
    if (/turn left|left onto|keep left/.test(text)) return "left"
    if (/turn right|right onto|keep right/.test(text)) return "right"
    return "straight"
  }
  \<close>
\<close>

definition extractTurnType :: "string \<Rightarrow> turnType" where
  "extractTurnType raw =
     (let text = toLowerCase raw in
      if contains ''u-turn'' text \<or> contains ''u turn'' text then u_turn
      else if contains ''slight left'' text then slight_left
      else if contains ''slight right'' text then slight_right
      else if contains ''turn left'' text \<or> contains ''left onto'' text \<or> contains ''keep left'' text then left
      else if contains ''turn right'' text \<or> contains ''right onto'' text \<or> contains ''keep right'' text then right
      else straight)"

text \<open>
  Texts on which the cleaning steps of \<open>normalizeInstruction\<close> change nothing: no tag, no
  entity, blanks only one at a time and not at either end. \<open>compassWord\<close> is a compass
  direction of \<open>straightWords\<close> in any mix of upper and lower case.
\<close>

fun spacedOnce :: "bool \<Rightarrow> string \<Rightarrow> bool" where
  "spacedOnce prev [] = True"
| "spacedOnce prev (c # cs) =
     (if isSpace c then c = CHR '' '' \<and> \<not> prev \<and> spacedOnce True cs else spacedOnce False cs)"

definition tidy :: "string \<Rightarrow> bool" where
  "tidy s = (s \<noteq> [] \<and> CHR ''<'' \<notin> set s \<and> CHR ''&'' \<notin> set s \<and> spacedOnce True s \<and> \<not> isSpace (last s))"

definition compassWord :: "string \<Rightarrow> bool" where
  "compassWord d = (d \<noteq> [] \<and> (\<forall>c \<in> set d. isLetter c) \<and> toLowerCase d \<in> set straightWords)"

section \<open>Geometry\<close>

text \<open>
  A coordinate is a pair of degrees. Both screens carry their own haversine function;
  they are translated separately. \<open>atan2\<close> is \<^verbatim>\<open>Math.atan2\<close> on the reals.
\<close>

record LatLng =
  latitude :: real
  longitude :: real

definition toRadians :: "real \<Rightarrow> real" where
  "toRadians degrees = (degrees * pi) / 180"

definition atan2 :: "real \<Rightarrow> real \<Rightarrow> real" where
  "atan2 y x =
     (if 0 < x then arctan (y / x)
      else if x < 0 then (if 0 \<le> y then arctan (y / x) + pi else arctan (y / x) - pi)
      else if 0 < y then pi / 2
      else if y < 0 then - pi / 2
      else 0)"

text \<open>
  LocationScreen.tsx:
  \<^verbatim>\<open>
  const haversineDistanceInMeters = (a: LatLng, b: LatLng) => {
    const EARTH_RADIUS = 6_371_000; // meters
    const dLat = toRadians(b.latitude - a.latitude);
    const dLon = toRadians(b.longitude - a.longitude);
    const lat1 = toRadians(a.latitude);
    const lat2 = toRadians(b.latitude);
    const sinDLat = Math.sin(dLat / 2);
    const sinDLon = Math.sin(dLon / 2);
    const h = sinDLat * sinDLat + Math.cos(lat1) * Math.cos(lat2) * sinDLon * sinDLon;
    const c = 2 * Math.atan2(Math.sqrt(h), Math.sqrt(1 - h));
    return EARTH_RADIUS * c;
  };
  \<close>
\<close>

definition haversineDistanceInMeters :: "LatLng \<Rightarrow> LatLng \<Rightarrow> real" where
  "haversineDistanceInMeters a b =
     (let EARTH_RADIUS = 6371000;
          dLat = toRadians (latitude b - latitude a);
          dLon = toRadians (longitude b - longitude a);
          lat1 = toRadians (latitude a);
          lat2 = toRadians (latitude b);
          sinDLat = sin (dLat / 2);
          sinDLon = sin (dLon / 2);
          h = sinDLat * sinDLat + cos lat1 * cos lat2 * sinDLon * sinDLon;
          c = 2 * atan2 (sqrt h) (sqrt (1 - h))
      in EARTH_RADIUS * c)"

text \<open>
  The customer screen:
  \<^verbatim>\<open>
  const calculateDistance = (loc1: LocationCoords, loc2: LocationCoords): number => {
    const R = 6371 // Earth's radius in km
    const dLat = (loc2.latitude - loc1.latitude) * Math.PI / 180
    const dLon = (loc2.longitude - loc1.longitude) * Math.PI / 180
    const a =
      Math.sin(dLat/2) * Math.sin(dLat/2) +
      Math.cos(loc1.latitude * Math.PI / 180) * Math.cos(loc2.latitude * Math.PI / 180) *
      Math.sin(dLon/2) * Math.sin(dLon/2)
    const c = 2 * Math.atan2(Math.sqrt(a), Math.sqrt(1-a))
    return R * c * 1000 // Return distance in meters
  }
  \<close>
\<close>

definition calculateDistance :: "LatLng \<Rightarrow> LatLng \<Rightarrow> real" where
  "calculateDistance loc1 loc2 =
     (let R = 6371;
          dLat = (latitude loc2 - latitude loc1) * pi / 180;
          dLon = (longitude loc2 - longitude loc1) * pi / 180;
          a = sin (dLat / 2) * sin (dLat / 2) +
              cos (latitude loc1 * pi / 180) * cos (latitude loc2 * pi / 180) *
              sin (dLon / 2) * sin (dLon / 2);
          c = 2 * atan2 (sqrt a) (sqrt (1 - a))
      in R * c * 1000)"

section \<open>Routes\<close>

record RouteStepInfo =
  instruction :: string
  distanceMeters :: real
  endLocation :: LatLng
  turnType :: turnType


subsection \<open>Polyline decoding\<close>

text \<open>
  \<^verbatim>\<open>
  const decodePolyline = (encoded: string): LocationCoords[] => {
    const points: LocationCoords[] = []
    let index = 0, lat = 0, lng = 0
    const len = encoded.length
    while (index < len) {
      let b: number
      let shift = 0
      let result = 0
      do {
        b = encoded.charCodeAt(index++) - 63
        result |= (b & 0x1f) << shift
        shift += 5
      } while (b >= 0x20)
      const dlat = (result & 1) ? ~(result >> 1) : (result >> 1)
      lat += dlat
      ... the same for lng ...
      points.push({ latitude: lat / 1e5, longitude: lng / 1e5 })
    }
    return points
  }
  \<close>
  \<open>readChunk\<close> is one \<^verbatim>\<open>do ... while\<close> loop on the rest of the text; \<open>result\<close> is a 32-bit
  integer, the shift count is taken modulo 32 as \<^verbatim>\<open><<\<close> does. Past the end of the text
  \<^verbatim>\<open>charCodeAt\<close> is \<^verbatim>\<open>NaN\<close>, which adds no bits and ends the loop.
\<close>

fun readChunk :: "string \<Rightarrow> nat \<Rightarrow> 32 word \<Rightarrow> 32 word \<times> string" where
  "readChunk [] shift result = (result, [])"
| "readChunk (c # cs) shift result =
     (let b = int (of_char c :: nat) - 63;
          result' = result OR push_bit (shift mod 32) (word_of_int b AND 0x1f)
      in if b \<ge> 0x20 then readChunk cs (shift + 5) result' else (result', cs))"

definition unzigzag :: "32 word \<Rightarrow> int" where
  "unzigzag result =
     (if result AND 1 \<noteq> 0 then sint (NOT (signed_drop_bit 1 result)) else sint (signed_drop_bit 1 result))"

lemma readChunk_length: "length (snd (readChunk s shift result)) \<le> length s"
  by (induction s shift result rule: readChunk.induct) (auto simp: Let_def le_Suc_eq)

lemma readChunk_shorter: "s \<noteq> [] \<Longrightarrow> length (snd (readChunk s shift result)) < length s"
  using readChunk_length [of "tl s"] by (cases s) (auto simp: Let_def less_Suc_eq_le)

function decodeFrom :: "string \<Rightarrow> int \<Rightarrow> int \<Rightarrow> LatLng list" where
  "decodeFrom s lat lng =
     (if s = [] then []
      else (let (r1, s1) = readChunk s 0 0;
                lat' = lat + unzigzag r1;
                (r2, s2) = readChunk s1 0 0;
                lng' = lng + unzigzag r2
            in \<lparr>latitude = real_of_int lat' / 100000, longitude = real_of_int lng' / 100000\<rparr>
               # decodeFrom s2 lat' lng'))"
  by pat_completeness auto

termination
proof (relation "measure (\<lambda>(s, lat, lng). length s)", goal_cases)
  case 1
  then show ?case by simp
next
  case (2 s lat lng x r1 s1 lat' y r2 s2)
  then have "s1 = snd (readChunk s 0 0)" "s2 = snd (readChunk s1 0 0)"
    by (metis snd_conv)+
  with 2(1) readChunk_shorter [of s 0 0] readChunk_length [of s1 0 0] show ?case by simp
qed

declare decodeFrom.simps [simp del]

definition decodePolyline :: "string \<Rightarrow> LatLng list" where
  "decodePolyline encoded = decodeFrom encoded 0 0"

subsection \<open>Directions with fallback\<close>














section \<open>Guidance tracker\<close>








section \<open>Sockets and messages\<close>

text \<open>
  A socket object of the platform: its \<^verbatim>\<open>readyState\<close>, whether the handlers installed at
  creation are still attached, and the code arguments of the \<^verbatim>\<open>close\<close> calls made on it.
  The objects live in a store indexed by numbers, since a component drops its reference
  to a socket that the platform still holds. The messages are the JSON objects the
  source sends, without the time stamp.
\<close>

datatype TripPhase = idle | to_pickup | pickup_reached | to_drop | completed

datatype readyState = CONNECTING | OPEN | CLOSING | CLOSED

record socket =
  readyState :: readyState
  handlersAttached :: bool
  closeCalls :: "nat option list"

record snapshot =
  snap_driverId :: string
  snap_position :: LatLng
  snap_phase :: TripPhase
  snap_pickup :: "LatLng option"
  snap_drop :: "LatLng option"
  snap_pickupAddress :: string
  snap_dropAddress :: string

datatype message =
    ping
  | register_driver "string option" "string option"
  | register_viewer "string option" "string option"
  | location snapshot
  | DRIVER_DISCONNECT "string option" "string option"

definition isLocation :: "nat \<times> message \<Rightarrow> bool" where
  "isLocation m = (case snd m of location s \<Rightarrow> True | _ \<Rightarrow> False)"

definition locationsSent :: "(nat \<times> message) list \<Rightarrow> nat" where
  "locationsSent ms = length (filter isLocation ms)"

text \<open>\<^verbatim>\<open>!v\<close> for \<^verbatim>\<open>v: string | null\<close> is \<open>\<not> truthy v\<close>.\<close>

definition truthy :: "string option \<Rightarrow> bool" where
  "truthy v = (v \<noteq> None \<and> v \<noteq> Some [])"

definition socketState :: "(nat \<rightharpoonup> socket) \<Rightarrow> nat option \<Rightarrow> readyState option" where
  "socketState store ref = (case ref of None \<Rightarrow> None | Some i \<Rightarrow> map_option readyState (store i))"

text \<open>\<^verbatim>\<open>socket.close(code?)\<close>: an open or connecting socket starts closing; the close event
  comes later, from the platform.\<close>

definition closeSocket :: "nat option \<Rightarrow> nat \<Rightarrow> (nat \<rightharpoonup> socket) \<Rightarrow> (nat \<rightharpoonup> socket)" where
  "closeSocket code i store =
     (case store i of
        None \<Rightarrow> store
      | Some s \<Rightarrow> store(i \<mapsto> s\<lparr>readyState := (if readyState s = CLOSED then CLOSED else CLOSING),
                               closeCalls := closeCalls s @ [code]\<rparr>))"

section \<open>AutoDriverTracking.ts\<close>

text \<open>
  The module-level variables of the service are the fields of \<open>tracker\<close>; they and the
  functions of the module carry the prefix \<open>adt_\<close> where a screen uses the same name.
  \<open>adt_reconnectTimer\<close> holds the delay of the pending timeout, \<open>adt_sent\<close> is the log of
  what went out on which socket.
  \<^verbatim>\<open>
  const sendLocationUpdate = () => {
    try {
      if (!ws || ws.readyState !== WebSocket.OPEN) return;
      if (!driverId || !currentPosition) return;
      ws.send(JSON.stringify({ type: "location", driverId, role: "driver",
        location: { latitude: currentPosition.latitude, longitude: currentPosition.longitude,
                    timestamp: new Date().toISOString(), phase: "idle" } }));
    } catch {}
  };
  \<close>
\<close>

record tracker =
  adt_sockets :: "nat \<rightharpoonup> socket"
  adt_created :: nat
  adt_sent :: "(nat \<times> message) list"
  adt_ws :: "nat option"
  adt_heartbeat :: bool
  adt_watchId :: "nat option"
  adt_currentPosition :: "LatLng option"
  adt_driverId :: "string option"
  adt_cabNumber :: "string option"
  adt_reconnectTimer :: "nat option"
  adt_reconnectAttempts :: nat

definition WS_RECONNECT_BASE_MS :: nat where
  "WS_RECONNECT_BASE_MS = 2000"

definition adt_wsOpen :: "tracker \<Rightarrow> bool" where
  "adt_wsOpen t = (socketState (adt_sockets t) (adt_ws t) = Some OPEN)"

definition adt_transmit :: "message \<Rightarrow> tracker \<Rightarrow> tracker" where
  "adt_transmit m t =
     (case adt_ws t of
        Some i \<Rightarrow> if adt_wsOpen t then t\<lparr>adt_sent := adt_sent t @ [(i, m)]\<rparr> else t
      | None \<Rightarrow> t)"

definition adt_sendPing :: "tracker \<Rightarrow> tracker" where
  "adt_sendPing t = (if adt_wsOpen t then adt_transmit ping t else t)"

definition adt_sendLocationUpdate :: "tracker \<Rightarrow> tracker" where
  "adt_sendLocationUpdate t =
     (if \<not> adt_wsOpen t then t
      else case (adt_driverId t, adt_currentPosition t) of
        (Some d, Some p) \<Rightarrow>
          if d = [] then t
          else adt_transmit (location \<lparr>snap_driverId = d, snap_position = p, snap_phase = idle,
                 snap_pickup = None, snap_drop = None,
                 snap_pickupAddress = [], snap_dropAddress = []\<rparr>) t
      | _ \<Rightarrow> t)"

definition adt_startHeartbeat :: "tracker \<Rightarrow> tracker" where
  "adt_startHeartbeat t = t\<lparr>adt_heartbeat := True\<rparr>"

definition adt_stopHeartbeat :: "tracker \<Rightarrow> tracker" where
  "adt_stopHeartbeat t = t\<lparr>adt_heartbeat := False\<rparr>"

text \<open>
  \<^verbatim>\<open>
  const connectSocket = () => {
    if (!driverId) return;
    if (ws && (ws.readyState === WebSocket.OPEN || ws.readyState === WebSocket.CONNECTING)) return;
    ws = new WebSocket(WS_BASE_URL);
    ws.onopen = () => {
      reconnectAttempts = 0;
      startHeartbeat();
      try { ws?.send(JSON.stringify({ type: "register", role: "driver", driverId, metadata: { cabNumber } })); } catch {}
      sendLocationUpdate();
    };
    ws.onclose = () => {
      stopHeartbeat();
      if (reconnectTimer) clearTimeout(reconnectTimer);
      reconnectAttempts += 1;
      const delay = Math.min(WS_RECONNECT_BASE_MS * Math.pow(2, reconnectAttempts), 30000);
      reconnectTimer = setTimeout(connectSocket, delay);
    };
  };
  \<close>
\<close>

definition adt_connectSocket :: "tracker \<Rightarrow> tracker" where
  "adt_connectSocket t =
     (if \<not> truthy (adt_driverId t) then t
      else if socketState (adt_sockets t) (adt_ws t) \<in> {Some OPEN, Some CONNECTING} then t
      else t\<lparr>adt_sockets := (adt_sockets t)(adt_created t \<mapsto>
                  \<lparr>readyState = CONNECTING, handlersAttached = True, closeCalls = []\<rparr>),
              adt_ws := Some (adt_created t),
              adt_created := Suc (adt_created t)\<rparr>)"

definition adt_onopen :: "tracker \<Rightarrow> tracker" where
  "adt_onopen t =
     adt_sendLocationUpdate
       (adt_transmit (register_driver (adt_driverId t) (adt_cabNumber t))
          (adt_startHeartbeat (t\<lparr>adt_reconnectAttempts := 0\<rparr>)))"

definition adt_onclose :: "tracker \<Rightarrow> tracker" where
  "adt_onclose t =
     (let t1 = adt_stopHeartbeat t;
          attempts = adt_reconnectAttempts t1 + 1;
          delay = min (WS_RECONNECT_BASE_MS * 2 ^ attempts) 30000
      in t1\<lparr>adt_reconnectAttempts := attempts, adt_reconnectTimer := Some delay\<rparr>)"

definition adt_onPosition :: "LatLng \<Rightarrow> tracker \<Rightarrow> tracker" where
  "adt_onPosition p t = adt_sendLocationUpdate (t\<lparr>adt_currentPosition := Some p\<rparr>)"

text \<open>
  \<^verbatim>\<open>
  export const stopAutoTracking = () => {
    if (watchId !== null) { Geolocation.clearWatch(watchId); watchId = null; }
    if (ws) {
      try {
        if (ws.readyState === WebSocket.OPEN) {
          ws.send(JSON.stringify({ type: "DRIVER_DISCONNECT", payload: { driverId, cabNumber } }));
        }
      } catch {}
      ws.close();
      ws = null;
    }
    stopHeartbeat();
    if (reconnectTimer) { clearTimeout(reconnectTimer); reconnectTimer = null; }
  };
  \<close>
\<close>

definition stopAutoTracking :: "tracker \<Rightarrow> tracker" where
  "stopAutoTracking t =
     (let t1 = t\<lparr>adt_watchId := None\<rparr>;
          t2 = (case adt_ws t1 of
                  None \<Rightarrow> t1
                | Some i \<Rightarrow>
                    (let t' = (if adt_wsOpen t1
                               then adt_transmit (DRIVER_DISCONNECT (adt_driverId t1) (adt_cabNumber t1)) t1
                               else t1)
                     in t'\<lparr>adt_sockets := closeSocket None i (adt_sockets t'), adt_ws := None\<rparr>));
          t3 = adt_stopHeartbeat t2
      in t3\<lparr>adt_reconnectTimer := None\<rparr>)"

text \<open>
  What the platform does to the service: a socket opens or closes (its handler runs when
  it is attached), a timer fires, a position arrives, the caller stops tracking.
\<close>

datatype adt_event =
    SocketOpened nat
  | SocketClosed nat
  | HeartbeatTick
  | ReconnectTimerFired
  | PositionFix LatLng
  | StopAutoTracking

fun adt_step :: "adt_event \<Rightarrow> tracker \<Rightarrow> tracker" where
  "adt_step (SocketOpened i) t =
     (case adt_sockets t i of
        Some s \<Rightarrow>
          if readyState s = CONNECTING
          then (let t1 = t\<lparr>adt_sockets := (adt_sockets t)(i \<mapsto> s\<lparr>readyState := OPEN\<rparr>)\<rparr>
                in if handlersAttached s then adt_onopen t1 else t1)
          else t
      | None \<Rightarrow> t)"
| "adt_step (SocketClosed i) t =
     (case adt_sockets t i of
        Some s \<Rightarrow>
          if readyState s = CLOSED then t
          else (let t1 = t\<lparr>adt_sockets := (adt_sockets t)(i \<mapsto> s\<lparr>readyState := CLOSED\<rparr>)\<rparr>
                in if handlersAttached s then adt_onclose t1 else t1)
      | None \<Rightarrow> t)"
| "adt_step HeartbeatTick t = (if adt_heartbeat t then adt_sendPing t else t)"
| "adt_step ReconnectTimerFired t =
     (case adt_reconnectTimer t of
        Some d \<Rightarrow> adt_connectSocket (t\<lparr>adt_reconnectTimer := None\<rparr>)
      | None \<Rightarrow> t)"
| "adt_step (PositionFix p) t = adt_onPosition p t"
| "adt_step StopAutoTracking t = stopAutoTracking t"

definition adt_run :: "adt_event list \<Rightarrow> tracker \<Rightarrow> tracker" where
  "adt_run es t = fold adt_step es t"

section \<open>LocationScreen.tsx\<close>

text \<open>
  The component's React state is the record \<open>render\<close>; its refs, the socket store and
  the log of sent messages are \<open>refs\<close>. A callback created in a render reads the state
  values of that render and the current refs, so every callback below takes the render
  \<open>r\<close> it was created in; a \<^verbatim>\<open>setState\<close> call changes the first component of the
  \<open>screen\<close> pair, which the callback itself does not read. \<open>pickupAlerts\<close> counts the
  "Reached pickup?" alerts shown; helpers for which the source has no name carry the
  prefix \<open>ls_\<close>.
\<close>

definition ARRIVAL_THRESHOLD_METERS :: real where
  "ARRIVAL_THRESHOLD_METERS = 120"

record render =
  driverId :: string
  cabNumber :: string
  currentPosition :: "LatLng option"
  pickupCoordinate :: "LatLng option"
  dropCoordinate :: "LatLng option"
  tripPhase :: TripPhase
  isTracking :: bool
  hasPromptedPickup :: bool
  isConnected :: bool
  locationFrom :: string
  locationTo :: string

record refs =
  ls_sockets :: "nat \<rightharpoonup> socket"
  ls_created :: nat
  ls_sent :: "(nat \<times> message) list"
  webSocketRef :: "nat option"
  broadcastIntervalRef :: bool
  reconnectTimeoutRef :: bool
  heartbeatRef :: bool
  pickupAlerts :: nat

type_synonym screen = "render \<times> refs"

text \<open>
  \<^verbatim>\<open>
  const sendLocationUpdate = useCallback(() => {
    if (!webSocketRef.current || webSocketRef.current.readyState !== WebSocket.OPEN) return;
    if (!driverId || !currentPosition) return;
    const payload: DriverBroadcastPayload = {
      type: "location", driverId, role: "driver",
      location: { latitude: currentPosition.latitude, longitude: currentPosition.longitude,
        timestamp: new Date().toISOString(), phase: tripPhase, pickup: pickupCoordinate,
        drop: dropCoordinate, pickupAddress: location.from, dropAddress: location.to },
    };
    try { webSocketRef.current.send(JSON.stringify(payload)); } catch (error) { ... }
  }, [currentPosition, driverId, dropCoordinate, location.from, location.to, pickupCoordinate, tripPhase]);
  \<close>
\<close>

definition ls_wsOpen :: "refs \<Rightarrow> bool" where
  "ls_wsOpen x = (socketState (ls_sockets x) (webSocketRef x) = Some OPEN)"

definition ls_transmit :: "message \<Rightarrow> refs \<Rightarrow> refs" where
  "ls_transmit m x =
     (case webSocketRef x of
        Some i \<Rightarrow> if ls_wsOpen x then x\<lparr>ls_sent := ls_sent x @ [(i, m)]\<rparr> else x
      | None \<Rightarrow> x)"

definition sendLocationUpdate :: "render \<Rightarrow> refs \<Rightarrow> refs" where
  "sendLocationUpdate r x =
     (if \<not> ls_wsOpen x then x
      else case currentPosition r of
        None \<Rightarrow> x
      | Some pos \<Rightarrow>
          if driverId r = [] then x
          else ls_transmit (location \<lparr>snap_driverId = driverId r, snap_position = pos,
                 snap_phase = tripPhase r, snap_pickup = pickupCoordinate r,
                 snap_drop = dropCoordinate r, snap_pickupAddress = locationFrom r,
                 snap_dropAddress = locationTo r\<rparr>) x)"

text \<open>
  \<^verbatim>\<open>
  const stopBroadcasting = useCallback(() => {
    if (broadcastIntervalRef.current) {
      clearInterval(broadcastIntervalRef.current);
      broadcastIntervalRef.current = null;
    }
  }, []);

  const closeWebSocket = useCallback(() => {
    if (webSocketRef.current) {
      if (webSocketRef.current.readyState === WebSocket.OPEN) {
        try {
          webSocketRef.current.send(JSON.stringify({ type: "DRIVER_DISCONNECT", payload: { driverId, cabNumber } }));
        } catch (error) { ... }
      }
      webSocketRef.current.close();
      webSocketRef.current = null;
    }
    setIsConnected(false);
    if (heartbeatRef.current) { clearInterval(heartbeatRef.current); heartbeatRef.current = null; }
    stopBroadcasting();
    if (reconnectTimeoutRef.current) { clearTimeout(reconnectTimeoutRef.current); reconnectTimeoutRef.current = null; }
  }, [cabNumber, driverId, stopBroadcasting]);

  const startBroadcasting = useCallback(() => {
    if (broadcastIntervalRef.current || !isTracking) return;
    sendLocationUpdate();
    broadcastIntervalRef.current = setInterval(sendLocationUpdate, BROADCAST_INTERVAL_MS);
  }, [isTracking, sendLocationUpdate]);
  \<close>
\<close>

definition stopBroadcasting :: "refs \<Rightarrow> refs" where
  "stopBroadcasting x = x\<lparr>broadcastIntervalRef := False\<rparr>"

definition closeWebSocket :: "render \<Rightarrow> screen \<Rightarrow> screen" where
  "closeWebSocket r = (\<lambda>(p, x).
     (let x1 = (case webSocketRef x of
                  None \<Rightarrow> x
                | Some i \<Rightarrow>
                    (let x' = (if ls_wsOpen x
                               then ls_transmit (DRIVER_DISCONNECT (Some (driverId r)) (Some (cabNumber r))) x
                               else x)
                     in x'\<lparr>ls_sockets := closeSocket None i (ls_sockets x'), webSocketRef := None\<rparr>));
          x2 = stopBroadcasting (x1\<lparr>heartbeatRef := False\<rparr>)
      in (p\<lparr>isConnected := False\<rparr>, x2\<lparr>reconnectTimeoutRef := False\<rparr>)))"

definition startBroadcasting :: "render \<Rightarrow> refs \<Rightarrow> refs" where
  "startBroadcasting r x =
     (if broadcastIntervalRef x \<or> \<not> isTracking r then x
      else (sendLocationUpdate r x)\<lparr>broadcastIntervalRef := True\<rparr>)"

text \<open>
  \<^verbatim>\<open>
  const connectWebSocket = useCallback(() => {
    if (!driverId) return;
    if (webSocketRef.current && webSocketRef.current.readyState !== WebSocket.CLOSED) return;
    const socket = new WebSocket(WS_BASE_URL);
    webSocketRef.current = socket;
    socket.onopen = () => {
      setIsConnected(true);
      if (heartbeatRef.current) clearInterval(heartbeatRef.current);
      heartbeatRef.current = setInterval(() => { ... send { type: "ping" } when open ... }, 25000);
      socket.send(JSON.stringify({ type: "register", role: "driver", driverId, metadata: { cabNumber } }));
      if (currentPosition || pickupCoordinate || dropCoordinate) {
        try { sendLocationUpdate(); } catch (e) { ... }
      }
      if (isTracking) startBroadcasting();
    };
    socket.onclose = () => {
      setIsConnected(false);
      if (heartbeatRef.current) { clearInterval(heartbeatRef.current); heartbeatRef.current = null; }
      stopBroadcasting();
      if (reconnectTimeoutRef.current) clearTimeout(reconnectTimeoutRef.current);
      reconnectTimeoutRef.current = setTimeout(() => {
        reconnectTimeoutRef.current = null;
        connectWebSocket();
      }, WS_RECONNECT_DELAY_MS);
    };
  }, [cabNumber, driverId, isTracking, startBroadcasting, stopBroadcasting]);
  \<close>
  \<open>ls_onopen\<close> and \<open>ls_onclose\<close> are the two handlers; the socket that opened is \<open>i\<close>.
\<close>

definition connectWebSocket :: "render \<Rightarrow> refs \<Rightarrow> refs" where
  "connectWebSocket r x =
     (if driverId r = [] then x
      else case socketState (ls_sockets x) (webSocketRef x) of
        Some st \<Rightarrow>
          if st \<noteq> CLOSED then x
          else x\<lparr>ls_sockets := (ls_sockets x)(ls_created x \<mapsto>
                    \<lparr>readyState = CONNECTING, handlersAttached = True, closeCalls = []\<rparr>),
                  webSocketRef := Some (ls_created x), ls_created := Suc (ls_created x)\<rparr>
      | None \<Rightarrow>
          x\<lparr>ls_sockets := (ls_sockets x)(ls_created x \<mapsto>
                 \<lparr>readyState = CONNECTING, handlersAttached = True, closeCalls = []\<rparr>),
               webSocketRef := Some (ls_created x), ls_created := Suc (ls_created x)\<rparr>)"

definition ls_onopen :: "nat \<Rightarrow> render \<Rightarrow> screen \<Rightarrow> screen" where
  "ls_onopen i r = (\<lambda>(p, x).
     (let x1 = x\<lparr>heartbeatRef := True\<rparr>;
          x2 = x1\<lparr>ls_sent := ls_sent x1 @ [(i, register_driver (Some (driverId r)) (Some (cabNumber r)))]\<rparr>;
          x3 = (if currentPosition r \<noteq> None \<or> pickupCoordinate r \<noteq> None \<or> dropCoordinate r \<noteq> None
                then sendLocationUpdate r x2 else x2);
          x4 = (if isTracking r then startBroadcasting r x3 else x3)
      in (p\<lparr>isConnected := True\<rparr>, x4)))"

definition ls_onclose :: "screen \<Rightarrow> screen" where
  "ls_onclose = (\<lambda>(p, x).
     (p\<lparr>isConnected := False\<rparr>,
      (stopBroadcasting (x\<lparr>heartbeatRef := False\<rparr>))\<lparr>reconnectTimeoutRef := True\<rparr>))"

definition ls_heartbeat :: "refs \<Rightarrow> refs" where
  "ls_heartbeat x = (if ls_wsOpen x then ls_transmit ping x else x)"

text \<open>
  \<^verbatim>\<open>
  useEffect(() => {
    if (!currentPosition || !pickupCoordinate || tripPhase !== "to_pickup" || hasPromptedPickup) return;
    const distance = haversineDistanceInMeters(currentPosition, pickupCoordinate);
    if (distance <= ARRIVAL_THRESHOLD_METERS) {
      setHasPromptedPickup(true);
      Alert.alert("Reached pickup?", "...", [
        { text: "Not yet", style: "cancel", onPress: () => setHasPromptedPickup(false) },
        { text: "Start drop navigation",
          onPress: () => { setTripPhase("to_drop"); setHasPromptedPickup(true); sendLocationUpdate(); } },
      ]);
    }
  }, [currentPosition, hasPromptedPickup, pickupCoordinate, sendLocationUpdate, tripPhase]);
  \<close>
\<close>

definition pickupArrivalEffect :: "render \<Rightarrow> screen \<Rightarrow> screen" where
  "pickupArrivalEffect r = (\<lambda>(p, x).
     (case (currentPosition r, pickupCoordinate r) of
        (Some cur, Some pk) \<Rightarrow>
          if tripPhase r \<noteq> to_pickup \<or> hasPromptedPickup r then (p, x)
          else if haversineDistanceInMeters cur pk \<le> ARRIVAL_THRESHOLD_METERS
               then (p\<lparr>hasPromptedPickup := True\<rparr>, x\<lparr>pickupAlerts := Suc (pickupAlerts x)\<rparr>)
               else (p, x)
      | _ \<Rightarrow> (p, x)))"

definition alertNotYet :: "screen \<Rightarrow> screen" where
  "alertNotYet = (\<lambda>(p, x). (p\<lparr>hasPromptedPickup := False\<rparr>, x))"

definition alertStartDropNavigation :: "render \<Rightarrow> screen \<Rightarrow> screen" where
  "alertStartDropNavigation r = (\<lambda>(p, x).
     (p\<lparr>tripPhase := to_drop, hasPromptedPickup := True\<rparr>, sendLocationUpdate r x))"

text \<open>
  \<^verbatim>\<open>
  useEffect(() => {
    if (!currentPosition || !dropCoordinate || tripPhase !== "to_drop") return;
    const distance = haversineDistanceInMeters(currentPosition, dropCoordinate);
    if (distance <= ARRIVAL_THRESHOLD_METERS) {
      setTripPhase("completed");
      sendLocationUpdate();
      stopBroadcasting();
    }
  }, [currentPosition, dropCoordinate, sendLocationUpdate, stopBroadcasting, tripPhase]);

  useEffect(() => {
    if (tripPhase !== "idle") sendLocationUpdate();
  }, [pickupCoordinate, dropCoordinate, sendLocationUpdate, tripPhase]);
  \<close>
  The snapshot that the drop effect sends is built by the \<open>sendLocationUpdate\<close> of the
  render in which the phase is still \<open>to_drop\<close>.
\<close>

definition dropArrivalEffect :: "render \<Rightarrow> screen \<Rightarrow> screen" where
  "dropArrivalEffect r = (\<lambda>(p, x).
     (case (currentPosition r, dropCoordinate r) of
        (Some cur, Some dr) \<Rightarrow>
          if tripPhase r \<noteq> to_drop then (p, x)
          else if haversineDistanceInMeters cur dr \<le> ARRIVAL_THRESHOLD_METERS
               then (p\<lparr>tripPhase := completed\<rparr>, stopBroadcasting (sendLocationUpdate r x))
               else (p, x)
      | _ \<Rightarrow> (p, x)))"

definition phaseBroadcastEffect :: "render \<Rightarrow> screen \<Rightarrow> screen" where
  "phaseBroadcastEffect r = (\<lambda>(p, x).
     if tripPhase r \<noteq> idle then (p, sendLocationUpdate r x) else (p, x))"

text \<open>
  A position fix. The watcher was installed at mount, so the \<open>sendLocationUpdate\<close> it
  calls is the one of the first render (\<open>initialRender\<close>). The new position is a new
  object, so the three effects above run on the new render (\<open>arrivalEffects\<close>). When
  they changed the state there is a second render, in which an effect runs again only
  if one of its dependencies changed (\<open>rerunEffects\<close>; the tuples are the dependency
  arrays, with the dependencies of \<open>sendLocationUpdate\<close> in its place).
\<close>

definition initialRender :: render where
  "initialRender = \<lparr>driverId = [], cabNumber = [], currentPosition = None, pickupCoordinate = None,
     dropCoordinate = None, tripPhase = idle, isTracking = False, hasPromptedPickup = False,
     isConnected = False, locationFrom = [], locationTo = []\<rparr>"

definition watchCallback :: "LatLng \<Rightarrow> screen \<Rightarrow> screen" where
  "watchCallback pos = (\<lambda>(p, x).
     (p\<lparr>currentPosition := Some pos\<rparr>, if ls_wsOpen x then sendLocationUpdate initialRender x else x))"

definition arrivalEffects :: "render \<Rightarrow> screen \<Rightarrow> screen" where
  "arrivalEffects r s = phaseBroadcastEffect r (dropArrivalEffect r (pickupArrivalEffect r s))"

definition sendDeps where
  "sendDeps r = (currentPosition r, driverId r, dropCoordinate r, locationFrom r, locationTo r,
                 pickupCoordinate r, tripPhase r)"

definition pickupDeps where
  "pickupDeps r = (currentPosition r, hasPromptedPickup r, pickupCoordinate r, sendDeps r, tripPhase r)"

definition dropDeps where
  "dropDeps r = (currentPosition r, dropCoordinate r, sendDeps r, tripPhase r)"

definition broadcastDeps where
  "broadcastDeps r = (pickupCoordinate r, dropCoordinate r, sendDeps r, tripPhase r)"

definition rerunEffects :: "render \<Rightarrow> screen \<Rightarrow> screen" where
  "rerunEffects prev s =
     (let cur = fst s;
          s1 = (if pickupDeps prev \<noteq> pickupDeps cur then pickupArrivalEffect cur s else s);
          s2 = (if dropDeps prev \<noteq> dropDeps cur then dropArrivalEffect cur s1 else s1)
      in if broadcastDeps prev \<noteq> broadcastDeps cur then phaseBroadcastEffect cur s2 else s2)"

definition rerender :: "render \<Rightarrow> screen \<Rightarrow> screen" where
  "rerender prev s =
     (let s1 = rerunEffects prev s
      in if fst s1 = fst s then s1 else rerunEffects (fst s) s1)"

definition positionUpdate :: "LatLng \<Rightarrow> screen \<Rightarrow> screen" where
  "positionUpdate pos s =
     (let s1 = watchCallback pos s;
          s2 = arrivalEffects (fst s1) s1
      in if fst s2 = fst s1 then s2 else rerunEffects (fst s1) s2)"

definition pressNotYet :: "screen \<Rightarrow> screen" where
  "pressNotYet s = rerender (fst s) (alertNotYet s)"

definition pressStartDropNavigation :: "render \<Rightarrow> screen \<Rightarrow> screen" where
  "pressStartDropNavigation r s = rerender (fst s) (alertStartDropNavigation r s)"

text \<open>
  The events of the screen. An event that runs a callback names the render the callback
  was created in; \<open>closureUnknown\<close> says that this render has no driver id.
\<close>

datatype ls_event =
    BroadcastTick render
  | ScreenSocketOpened nat render
  | ScreenSocketClosed nat
  | ScreenReconnectTimer render
  | ScreenHeartbeat
  | PositionUpdate LatLng
  | PressNotYet
  | PressStartDrop render
  | Unmount render

fun ls_step :: "ls_event \<Rightarrow> screen \<Rightarrow> screen" where
  "ls_step (BroadcastTick r) (p, x) =
     (if broadcastIntervalRef x then (p, sendLocationUpdate r x) else (p, x))"
| "ls_step (ScreenSocketOpened i r) (p, x) =
     (case ls_sockets x i of
        Some s \<Rightarrow>
          if readyState s = CONNECTING
          then ls_onopen i r (p, x\<lparr>ls_sockets := (ls_sockets x)(i \<mapsto> s\<lparr>readyState := OPEN\<rparr>)\<rparr>)
          else (p, x)
      | None \<Rightarrow> (p, x))"
| "ls_step (ScreenSocketClosed i) (p, x) =
     (case ls_sockets x i of
        Some s \<Rightarrow>
          if readyState s = CLOSED then (p, x)
          else (let x1 = x\<lparr>ls_sockets := (ls_sockets x)(i \<mapsto> s\<lparr>readyState := CLOSED\<rparr>)\<rparr>
                in if handlersAttached s then ls_onclose (p, x1) else (p, x1))
      | None \<Rightarrow> (p, x))"
| "ls_step (ScreenReconnectTimer r) (p, x) =
     (if reconnectTimeoutRef x then (p, connectWebSocket r (x\<lparr>reconnectTimeoutRef := False\<rparr>))
      else (p, x))"
| "ls_step ScreenHeartbeat (p, x) = (if heartbeatRef x then (p, ls_heartbeat x) else (p, x))"
| "ls_step (PositionUpdate pos) (p, x) = positionUpdate pos (p, x)"
| "ls_step PressNotYet (p, x) = pressNotYet (p, x)"
| "ls_step (PressStartDrop r) (p, x) = pressStartDropNavigation r (p, x)"
| "ls_step (Unmount r) (p, x) = closeWebSocket r (p, x)"

fun closureUnknown :: "ls_event \<Rightarrow> bool" where
  "closureUnknown (BroadcastTick r) = (driverId r = [])"
| "closureUnknown (ScreenSocketOpened i r) = (driverId r = [])"
| "closureUnknown (ScreenReconnectTimer r) = (driverId r = [])"
| "closureUnknown (PressStartDrop r) = (driverId r = [])"
| "closureUnknown (Unmount r) = (driverId r = [])"
| "closureUnknown _ = True"

text \<open>Abbreviations used in the statements below.\<close>

definition pickupDue :: "render \<Rightarrow> bool" where
  "pickupDue r =
     (case (currentPosition r, pickupCoordinate r) of
        (Some cur, Some pk) \<Rightarrow> tripPhase r = to_pickup \<and> \<not> hasPromptedPickup r
                               \<and> haversineDistanceInMeters cur pk \<le> ARRIVAL_THRESHOLD_METERS
      | _ \<Rightarrow> False)"

definition dropDue :: "render \<Rightarrow> bool" where
  "dropDue r =
     (case (currentPosition r, dropCoordinate r) of
        (Some cur, Some dr) \<Rightarrow> tripPhase r = to_drop
                               \<and> haversineDistanceInMeters cur dr \<le> ARRIVAL_THRESHOLD_METERS
      | _ \<Rightarrow> False)"

definition nearPickup :: "LatLng \<Rightarrow> LatLng \<Rightarrow> bool" where
  "nearPickup pk pos = (haversineDistanceInMeters pos pk \<le> ARRIVAL_THRESHOLD_METERS)"

definition quiet :: "screen \<Rightarrow> screen \<Rightarrow> bool" where
  "quiet s s' = (locationsSent (ls_sent (snd s')) = locationsSent (ls_sent (snd s))
                 \<and> driverId (fst s') = driverId (fst s))"

section \<open>The customer screen's socket\<close>

text \<open>
  The socket handling of the customer screen, with the prefix \<open>cd_\<close> where a name is
  taken. \<^verbatim>\<open>reconnectTimeoutRef.current\<close> is \<^verbatim>\<open>{ timeout, retryCount }\<close>: \<open>reconnectTimeout\<close>
  is the pending timer with its delay and the retry count its callback captured.
  \<^verbatim>\<open>
  const cleanupSocket = useCallback(() => {
    if (reconnectTimeoutRef.current.timeout) {
      clearTimeout(reconnectTimeoutRef.current.timeout)
      reconnectTimeoutRef.current.timeout = null
    }
    if (heartbeatRef.current) { clearInterval(heartbeatRef.current); heartbeatRef.current = null; }
    if (websocketRef.current) {
      websocketRef.current.onclose = null
      websocketRef.current.onerror = null
      websocketRef.current.onmessage = null
      if (websocketRef.current.readyState === WebSocket.OPEN ||
          websocketRef.current.readyState === WebSocket.CONNECTING) {
        websocketRef.current.close(1000, "Component cleanup")
      }
      websocketRef.current = null
    }
    setIsSocketConnected(false)
  }, [])
  \<close>
\<close>

record viewerRender =
  viewerId :: "string option"
  trackedDriverId :: "string option"
  isSocketConnected :: bool

record viewerRefs =
  cd_sockets :: "nat \<rightharpoonup> socket"
  cd_created :: nat
  cd_sent :: "(nat \<times> message) list"
  websocketRef :: "nat option"
  reconnectTimeout :: "(nat \<times> nat) option"
  retryCount :: nat
  cd_heartbeatRef :: bool

type_synonym viewer = "viewerRender \<times> viewerRefs"

definition cleanupSocket :: "viewer \<Rightarrow> viewer" where
  "cleanupSocket = (\<lambda>(p, x).
     (let x1 = x\<lparr>reconnectTimeout := None, cd_heartbeatRef := False\<rparr>;
          x2 = (case websocketRef x1 of
                  None \<Rightarrow> x1
                | Some i \<Rightarrow>
                    (case cd_sockets x1 i of
                       None \<Rightarrow> x1\<lparr>websocketRef := None\<rparr>
                     | Some s \<Rightarrow>
                         (let store = (cd_sockets x1)(i \<mapsto> s\<lparr>handlersAttached := False\<rparr>);
                              store' = (if readyState s = OPEN \<or> readyState s = CONNECTING
                                        then closeSocket (Some 1000) i store else store)
                          in x1\<lparr>cd_sockets := store', websocketRef := None\<rparr>)))
      in (p\<lparr>isSocketConnected := False\<rparr>, x2)))"

text \<open>
  \<^verbatim>\<open>
  ws.onopen = () => {
    setIsSocketConnected(true)
    reconnectTimeoutRef.current.retryCount = 0;
    ... heartbeat ...
    ws.send(JSON.stringify({ type: "register", role: "viewer", viewerId, trackDriverId: driverId }))
  }
  ws.onclose = (event) => {
    setIsSocketConnected(false)
    if (heartbeatRef.current) { clearInterval(heartbeatRef.current); heartbeatRef.current = null; }
    if (!viewerId || !driverId || event.code === 1000) return
    const retryCount = reconnectTimeoutRef.current.retryCount
    const delay = Math.min(1000 * Math.pow(2, retryCount), 30000) // Max 30 seconds
    reconnectTimeoutRef.current.timeout = setTimeout(() => {
      reconnectTimeoutRef.current.timeout = null
      if (retryCount < 10) {
        reconnectTimeoutRef.current.retryCount = retryCount + 1
        connectSocket()
      }
    }, delay)
  }
  \<close>
\<close>

definition cd_connectSocket :: "viewerRender \<Rightarrow> viewer \<Rightarrow> viewer" where
  "cd_connectSocket r = (\<lambda>(p, x).
     (let st = socketState (cd_sockets x) (websocketRef x) in
      if \<not> truthy (viewerId r) \<or> \<not> truthy (trackedDriverId r) then (p, x)
      else if st = Some CONNECTING then (p, x)
      else if st = Some OPEN \<and> isSocketConnected r then (p, x)
      else (let (p1, x1) = (if st = Some CLOSING \<or> st = Some CLOSED then cleanupSocket (p, x) else (p, x))
            in (p1, x1\<lparr>cd_sockets := (cd_sockets x1)(cd_created x1 \<mapsto>
                          \<lparr>readyState = CONNECTING, handlersAttached = True, closeCalls = []\<rparr>),
                        websocketRef := Some (cd_created x1),
                        cd_created := Suc (cd_created x1)\<rparr>))))"



definition cd_reconnectFires :: "viewerRender \<Rightarrow> viewer \<Rightarrow> viewer" where
  "cd_reconnectFires r = (\<lambda>(p, x).
     (case reconnectTimeout x of
        None \<Rightarrow> (p, x)
      | Some (delay, count) \<Rightarrow>
          (let x1 = x\<lparr>reconnectTimeout := None\<rparr>
           in if count < 10 then cd_connectSocket r (p, x1\<lparr>retryCount := count + 1\<rparr>)
              else (p, x1))))"


section \<open>Concrete states\<close>

text \<open>Two points half the equator apart, a maneuver ending at a given point, and small
  states of the three components, for the examples.\<close>

definition pointZero :: LatLng where "pointZero = \<lparr>latitude = 0, longitude = 0\<rparr>"

definition pointFar :: LatLng where "pointFar = \<lparr>latitude = 0, longitude = 180\<rparr>"



definition openSocket :: socket where
  "openSocket = \<lparr>readyState = OPEN, handlersAttached = True, closeCalls = []\<rparr>"

definition onlineTracker :: tracker where
  "onlineTracker = \<lparr>adt_sockets = [0 \<mapsto> openSocket], adt_created = 1, adt_sent = [], adt_ws = Some 0,
     adt_heartbeat = True, adt_watchId = Some 1, adt_currentPosition = Some pointZero,
     adt_driverId = Some ''41'', adt_cabNumber = Some ''MH12'', adt_reconnectTimer = None,
     adt_reconnectAttempts = 0\<rparr>"

definition anonymousTracker :: tracker where
  "anonymousTracker = onlineTracker\<lparr>adt_driverId := None\<rparr>"

definition offlineRefs :: refs where
  "offlineRefs = \<lparr>ls_sockets = Map.empty, ls_created = 0, ls_sent = [], webSocketRef = None,
     broadcastIntervalRef = True, reconnectTimeoutRef = False, heartbeatRef = False, pickupAlerts = 0\<rparr>"

definition onlineRefs :: refs where
  "onlineRefs = offlineRefs\<lparr>ls_sockets := [0 \<mapsto> openSocket], ls_created := 1, webSocketRef := Some 0,
     heartbeatRef := True\<rparr>"

definition toPickupRender :: render where
  "toPickupRender = initialRender\<lparr>driverId := ''41'', cabNumber := ''MH12'', tripPhase := to_pickup,
     isTracking := True, pickupCoordinate := Some pointZero, dropCoordinate := Some pointFar\<rparr>"


definition anonymousRender :: render where
  "anonymousRender = initialRender\<lparr>currentPosition := Some pointZero, tripPhase := to_pickup,
     isTracking := True\<rparr>"




section \<open>Properties of distance formatting\<close>










section \<open>Properties of instruction normalisation and turn classification\<close>

lemma removeTags_plain: "CHR ''<'' \<notin> set s \<Longrightarrow> removeTags False s = s"
  by (induction s) auto

lemma replaceNbsp_plain: "CHR ''&'' \<notin> set s \<Longrightarrow> replaceNbsp s = s"
  by (induction s) (auto simp: prefix_Cons)

lemma collapseSpaces_spacedOnce: "spacedOnce b s \<Longrightarrow> collapseSpaces b s = s"
  by (induction s arbitrary: b) (case_tac b; auto split: if_splits)+

lemma spacedOnce_no_terminator: "spacedOnce b s \<Longrightarrow> c \<in> set s \<Longrightarrow> \<not> isLineTerminator c"
  by (induction s arbitrary: b) (auto simp: isLineTerminator_def isSpace_def split: if_splits)

lemma spacedOnce_True_hd: "spacedOnce True s \<Longrightarrow> s \<noteq> [] \<Longrightarrow> \<not> isSpace (hd s)"
  by (cases s) (auto split: if_splits)

lemma dropWhile_hd: "s \<noteq> [] \<Longrightarrow> \<not> P (hd s) \<Longrightarrow> dropWhile P s = s"
  by (cases s) auto

lemma dropWhile_rev_last: "s \<noteq> [] \<Longrightarrow> \<not> P (last s) \<Longrightarrow> dropWhile P (rev s) = rev s"
  by (cases s rule: rev_cases) auto

lemma isLetter_facts:
  assumes "isLetter c"
  shows "\<not> isSpace c" "c \<noteq> CHR ''<''" "c \<noteq> CHR ''&''" "\<not> isLineTerminator c"
  using assms by (auto simp: isLetter_def isUpper_def isSpace_def isLineTerminator_def)

lemma isSpace_blank: "isSpace (CHR '' '')"
  by (simp add: isSpace_def)

lemma trim_id: "s \<noteq> [] \<Longrightarrow> \<not> isSpace (hd s) \<Longrightarrow> \<not> isSpace (last s) \<Longrightarrow> trim s = s"
  unfolding trim_def by (simp add: dropWhile_hd dropWhile_rev_last)

lemma trim_leading_space:
  "s \<noteq> [] \<Longrightarrow> \<not> isSpace (hd s) \<Longrightarrow> \<not> isSpace (last s) \<Longrightarrow> trim (CHR '' '' # s) = s"
  unfolding trim_def by (simp add: isSpace_blank dropWhile_hd dropWhile_rev_last)

lemma spacedOnce_letters:
  "\<forall>c \<in> set w. isLetter c \<Longrightarrow> spacedOnce False (w @ s) = spacedOnce False s"
  by (induction w) (auto simp: isLetter_facts)

lemma spacedOnce_word_append:
  "\<forall>c \<in> set w. isLetter c \<Longrightarrow> w \<noteq> [] \<Longrightarrow> spacedOnce b (w @ s) = spacedOnce False s"
  by (cases w) (auto simp: isLetter_facts spacedOnce_letters)

lemma tidy_D:
  assumes "tidy s"
  shows "s \<noteq> []" "CHR ''<'' \<notin> set s" "CHR ''&'' \<notin> set s" "spacedOnce True s"
    "\<not> isSpace (last s)" "\<not> isSpace (hd s)"
    "\<forall>c \<in> set s. \<not> isLineTerminator c"
  using assms spacedOnce_True_hd [of s] spacedOnce_no_terminator [of True s]
  by (auto simp: tidy_def)

lemma head_on_street:
  assumes d: "compassWord d" and st: "tidy street"
  shows "normalizeInstruction (''Head '' @ d @ '' on '' @ street) = ''Go straight on '' @ street"
proof -
  note t = tidy_D [OF st]
  from d have dne: "d \<noteq> []" and dl: "\<forall>c \<in> set d. isLetter c"
    and dw: "toLowerCase d \<in> set straightWords"
    by (auto simp: compassWord_def)
  define tail where "tail = '' on '' @ street"
  define v where "v = ''Head '' @ d @ tail"
  have tail_hd: "hd tail = CHR '' ''" and tail_ne: "tail \<noteq> []" and tail_last: "last tail = last street"
    using t(1) by (simp_all add: tail_def)
  have v1: "removeTags False v = v"
    using dl t(2) by (intro removeTags_plain) (auto simp: v_def tail_def dest: isLetter_facts(2))
  have v2: "replaceNbsp v = v"
    using dl t(3) by (intro replaceNbsp_plain) (auto simp: v_def tail_def dest: isLetter_facts(3))
  have "spacedOnce False v"
    using t(4) dl dne by (simp add: v_def tail_def isSpace_def spacedOnce_word_append)
  then have v3: "collapseSpaces False v = v"
    by (rule collapseSpaces_spacedOnce)
  have v4: "trim v = v"
    using t(1,5) by (intro trim_id) (simp_all add: v_def tail_def isSpace_def)
  have cleaned: "trim (collapseSpaces False (stripHtmlTags v)) = v"
    by (simp add: stripHtmlTags_def v1 v2 v3 v4)
  have tw: "takeWhile isLetter (d @ tail) = d" and dw2: "dropWhile isLetter (d @ tail) = tail"
    using dl by (simp_all add: tail_def isLetter_def isUpper_def)
  have ds: "dropWhile isSpace (d @ tail) = d @ tail"
    using dl dne by (cases d) (auto simp: isLetter_facts)
  have hm: "headMatch v = Some (d, tail)"
    using dne t(7) by (simp add: headMatch_def v_def isSpace_def tw dw2 ds)
       (simp add: tail_def isLineTerminator_def)
  have rem: "trim tail = ''on '' @ street"
    using trim_leading_space [of "''on '' @ street"] t(1,5) by (simp add: tail_def isSpace_def)
  have rl: "replaceLeadingOn (''on '' @ street) = ''on '' @ street"
    using t(1,6) by (cases street) (auto simp: replaceLeadingOn_def toLowerCase_def toLowerChar_def isUpper_def isSpace_def)
  have fin: "trim (''Go straight on '' @ street) = ''Go straight on '' @ street"
    using t(1,5) by (intro trim_id) (simp_all add: isSpace_def)
  show ?thesis
    unfolding v_def [symmetric] tail_def [symmetric]
    using dw rl fin by (simp add: normalizeInstruction_def cleaned hm rem)
qed

lemma contains_iff_sublist: "contains pat s = sublist pat s"
  by (induction s) (auto simp: sublist_Cons_right)

lemma normalize_head_north: "normalizeInstruction ''Head north on Main St'' = ''Go straight on Main St''"
  by code_simp

lemma extract_slight_left: "extractTurnType ''Turn slight left onto Oak Ave'' = slight_left"
  by code_simp

text \<open>
  C9. \<open>normalizeInstruction\<close> turns "Head north on Main St" into "Go straight on Main St",
  and more generally "Head d on s" into "Go straight on s" for every compass direction
  \<open>d\<close> and tidy text \<open>s\<close>. \<open>extractTurnType\<close> classifies by keywords of the lower-cased
  text, tried in this order: "u-turn" gives \<open>u_turn\<close>; otherwise "slight left" gives
  \<open>slight_left\<close>; otherwise (with no "slight right") "turn left" or "keep left" gives
  \<open>left\<close>; a text with none of the keywords is \<open>straight\<close>. So "Turn slight left onto Oak
  Ave" is \<open>slight_left\<close>.
\<close>

theorem normalize_and_classify:
  "normalizeInstruction ''Head north on Main St'' = ''Go straight on Main St''
   \<and> extractTurnType ''Turn slight left onto Oak Ave'' = slight_left
   \<and> (\<forall>d street. compassWord d \<and> tidy street \<longrightarrow>
         normalizeInstruction (''Head '' @ d @ '' on '' @ street) = ''Go straight on '' @ street)
   \<and> (\<forall>t. contains ''u-turn'' (toLowerCase t) \<longrightarrow> extractTurnType t = u_turn)
   \<and> (\<forall>t. \<not> contains ''u-turn'' (toLowerCase t) \<and> \<not> contains ''u turn'' (toLowerCase t)
           \<and> contains ''slight left'' (toLowerCase t) \<longrightarrow> extractTurnType t = slight_left)
   \<and> (\<forall>t. \<not> contains ''u-turn'' (toLowerCase t) \<and> \<not> contains ''u turn'' (toLowerCase t)
           \<and> \<not> contains ''slight left'' (toLowerCase t) \<and> \<not> contains ''slight right'' (toLowerCase t)
           \<and> (contains ''turn left'' (toLowerCase t) \<or> contains ''keep left'' (toLowerCase t))
           \<longrightarrow> extractTurnType t = left)
   \<and> (\<forall>t. \<not> contains ''u-turn'' (toLowerCase t) \<and> \<not> contains ''u turn'' (toLowerCase t)
           \<and> \<not> contains ''slight left'' (toLowerCase t) \<and> \<not> contains ''slight right'' (toLowerCase t)
           \<and> \<not> contains ''turn left'' (toLowerCase t) \<and> \<not> contains ''left onto'' (toLowerCase t)
           \<and> \<not> contains ''keep left'' (toLowerCase t) \<and> \<not> contains ''turn right'' (toLowerCase t)
           \<and> \<not> contains ''right onto'' (toLowerCase t) \<and> \<not> contains ''keep right'' (toLowerCase t)
           \<longrightarrow> extractTurnType t = straight)"
proof -
  have cls: "\<And>t. contains ''u-turn'' (toLowerCase t) \<Longrightarrow> extractTurnType t = u_turn"
    "\<And>t. \<not> contains ''u-turn'' (toLowerCase t) \<Longrightarrow> \<not> contains ''u turn'' (toLowerCase t)
       \<Longrightarrow> contains ''slight left'' (toLowerCase t) \<Longrightarrow> extractTurnType t = slight_left"
    "\<And>t. \<not> contains ''u-turn'' (toLowerCase t) \<Longrightarrow> \<not> contains ''u turn'' (toLowerCase t)
       \<Longrightarrow> \<not> contains ''slight left'' (toLowerCase t) \<Longrightarrow> \<not> contains ''slight right'' (toLowerCase t)
       \<Longrightarrow> contains ''turn left'' (toLowerCase t) \<or> contains ''keep left'' (toLowerCase t)
       \<Longrightarrow> extractTurnType t = left"
    "\<And>t. \<not> contains ''u-turn'' (toLowerCase t) \<Longrightarrow> \<not> contains ''u turn'' (toLowerCase t)
       \<Longrightarrow> \<not> contains ''slight left'' (toLowerCase t) \<Longrightarrow> \<not> contains ''slight right'' (toLowerCase t)
       \<Longrightarrow> \<not> contains ''turn left'' (toLowerCase t) \<Longrightarrow> \<not> contains ''left onto'' (toLowerCase t)
       \<Longrightarrow> \<not> contains ''keep left'' (toLowerCase t) \<Longrightarrow> \<not> contains ''turn right'' (toLowerCase t)
       \<Longrightarrow> \<not> contains ''right onto'' (toLowerCase t) \<Longrightarrow> \<not> contains ''keep right'' (toLowerCase t)
       \<Longrightarrow> extractTurnType t = straight"
    unfolding extractTurnType_def Let_def by presburger+
  show ?thesis
    using normalize_head_north extract_slight_left head_on_street cls by blast
qed

theorem normalize_and_classify_witness:
  "compassWord ''South'' \<and> tidy ''MG Road''
   \<and> normalizeInstruction (''Head '' @ ''South'' @ '' on '' @ ''MG Road'') = ''Go straight on '' @ ''MG Road''
   \<and> contains ''u-turn'' (toLowerCase ''Make a U-turn'') \<and> extractTurnType ''Make a U-turn'' = u_turn
   \<and> contains ''slight left'' (toLowerCase ''Slight left at the fork'')
   \<and> extractTurnType ''Slight left at the fork'' = slight_left
   \<and> contains ''keep left'' (toLowerCase ''Keep left'') \<and> extractTurnType ''Keep left'' = left
   \<and> \<not> contains ''turn right'' (toLowerCase ''Continue'') \<and> extractTurnType ''Continue'' = straight"
proof -
  have c: "compassWord ''South''" "tidy ''MG Road''"
    by code_simp+
  have u: "contains ''u-turn'' (toLowerCase ''Make a U-turn'')"
    by code_simp
  have sl: "\<not> contains ''u-turn'' (toLowerCase ''Slight left at the fork'')"
    "\<not> contains ''u turn'' (toLowerCase ''Slight left at the fork'')"
    "contains ''slight left'' (toLowerCase ''Slight left at the fork'')"
    by code_simp+
  have l: "\<not> contains ''u-turn'' (toLowerCase ''Keep left'')"
    "\<not> contains ''u turn'' (toLowerCase ''Keep left'')"
    "\<not> contains ''slight left'' (toLowerCase ''Keep left'')"
    "\<not> contains ''slight right'' (toLowerCase ''Keep left'')"
    "contains ''keep left'' (toLowerCase ''Keep left'')"
    by code_simp+
  have s: "\<not> contains ''u-turn'' (toLowerCase ''Continue'')"
    "\<not> contains ''u turn'' (toLowerCase ''Continue'')"
    "\<not> contains ''slight left'' (toLowerCase ''Continue'')"
    "\<not> contains ''slight right'' (toLowerCase ''Continue'')"
    "\<not> contains ''turn left'' (toLowerCase ''Continue'')"
    "\<not> contains ''left onto'' (toLowerCase ''Continue'')"
    "\<not> contains ''keep left'' (toLowerCase ''Continue'')"
    "\<not> contains ''turn right'' (toLowerCase ''Continue'')"
    "\<not> contains ''right onto'' (toLowerCase ''Continue'')"
    "\<not> contains ''keep right'' (toLowerCase ''Continue'')"
    by code_simp+
  from normalize_and_classify c u sl l s show ?thesis
    by blast
qed

section \<open>Properties of the distance functions\<close>

lemma haversine_same: "haversineDistanceInMeters p p = 0"
  by (simp add: haversineDistanceInMeters_def toRadians_def atan2_def)


lemma haversine_antipode:
  "haversineDistanceInMeters \<lparr>latitude = 0, longitude = 0\<rparr> \<lparr>latitude = 0, longitude = 180\<rparr> = 6371000 * pi"
  by (simp add: haversineDistanceInMeters_def toRadians_def atan2_def)

lemma calculateDistance_antipode:
  "calculateDistance \<lparr>latitude = 0, longitude = 0\<rparr> \<lparr>latitude = 0, longitude = 180\<rparr> = 6371000 * pi"
  by (simp add: calculateDistance_def atan2_def)

lemma haversine_far: "\<not> haversineDistanceInMeters pointZero pointFar \<le> 120"
proof -
  have "haversineDistanceInMeters pointZero pointFar = 6371000 * pi"
    unfolding pointZero_def pointFar_def by (rule haversine_antipode)
  moreover have "(120::real) < 6371000 * 2" by simp
  moreover have "6371000 * 2 \<le> 6371000 * pi" using pi_ge_two by simp
  ultimately show ?thesis by linarith
qed

lemma calculateDistance_far: "\<not> calculateDistance pointZero pointFar \<le> 35"
proof -
  have "calculateDistance pointZero pointFar = 6371000 * pi"
    unfolding pointZero_def pointFar_def by (rule calculateDistance_antipode)
  moreover have "(35::real) < 6371000 * 2" by simp
  moreover have "6371000 * 2 \<le> 6371000 * pi" using pi_ge_two by simp
  ultimately show ?thesis by linarith
qed

text \<open>
  Read over the reals, the two haversine functions are the same function. This says
  nothing about the last bit of the doubles that the two JavaScript expressions
  \<^verbatim>\<open>6371000 * c\<close> and \<^verbatim>\<open>6371 * c * 1000\<close> produce.
\<close>

lemma calculateDistance_eq_haversine_on_reals: "calculateDistance a b = haversineDistanceInMeters a b"
  by (simp add: calculateDistance_def haversineDistanceInMeters_def toRadians_def Let_def)

section \<open>Properties of the directions fallback\<close>




lemma decodePolyline_example:
  "decodePolyline ''_p~iF~ps|U'' = [\<lparr>latitude = 38.5, longitude = -120.2\<rparr>]"
  by code_simp



section \<open>Properties of the guidance tracker\<close>


















section \<open>Properties of the tracking service\<close>

lemma locationsSent_append [simp]: "locationsSent (xs @ ys) = locationsSent xs + locationsSent ys"
  by (simp add: locationsSent_def)

lemma locationsSent_single [simp]:
  "locationsSent [(i, ping)] = 0"
  "locationsSent [(i, register_driver a b)] = 0"
  "locationsSent [(i, register_viewer a b)] = 0"
  "locationsSent [(i, DRIVER_DISCONNECT a b)] = 0"
  "locationsSent [(i, location p)] = 1"
  by (simp_all add: locationsSent_def isLocation_def)


lemma adt_onclose_delay:
  "adt_reconnectTimer (adt_onclose t) = Some (min (2000 * 2 ^ Suc (adt_reconnectAttempts t)) 30000)"
  by (simp add: adt_onclose_def adt_stopHeartbeat_def Let_def WS_RECONNECT_BASE_MS_def)











section \<open>Properties of the snapshot guard\<close>

lemma adt_transmit_fields [simp]:
  "adt_driverId (adt_transmit m t) = adt_driverId t"
  "adt_currentPosition (adt_transmit m t) = adt_currentPosition t"
  "adt_sockets (adt_transmit m t) = adt_sockets t"
  "adt_ws (adt_transmit m t) = adt_ws t"
  "adt_wsOpen (adt_transmit m t) = adt_wsOpen t"
  by (simp_all add: adt_transmit_def adt_wsOpen_def split: option.splits)

lemma adt_transmit_sent:
  "adt_sent (adt_transmit m t) = (case adt_ws t of Some i \<Rightarrow> if adt_wsOpen t then adt_sent t @ [(i, m)] else adt_sent t | None \<Rightarrow> adt_sent t)"
  by (simp add: adt_transmit_def split: option.splits)

lemma adt_transmit_count:
  "\<not> isLocation (0, m) \<Longrightarrow> locationsSent (adt_sent (adt_transmit m t)) = locationsSent (adt_sent t)"
  by (simp add: adt_transmit_sent locationsSent_def isLocation_def split: option.splits)

lemma adt_sendLocationUpdate_fields [simp]:
  "adt_driverId (adt_sendLocationUpdate t) = adt_driverId t"
  "adt_currentPosition (adt_sendLocationUpdate t) = adt_currentPosition t"
  "adt_wsOpen (adt_sendLocationUpdate t) = adt_wsOpen t"
  by (simp_all add: adt_sendLocationUpdate_def split: option.splits)

lemma adt_sendLocationUpdate_guard:
  "locationsSent (adt_sent (adt_sendLocationUpdate t)) =
     (if adt_wsOpen t \<and> truthy (adt_driverId t) \<and> adt_currentPosition t \<noteq> None
      then Suc (locationsSent (adt_sent t)) else locationsSent (adt_sent t))"
  by (auto simp: adt_sendLocationUpdate_def adt_transmit_sent truthy_def adt_wsOpen_def socketState_def
      split: option.splits)

lemma adt_step_driverId [simp]: "adt_driverId (adt_step e t) = adt_driverId t"
  by (cases e)
    (auto simp: adt_onopen_def adt_onclose_def adt_startHeartbeat_def adt_stopHeartbeat_def
      adt_sendPing_def adt_connectSocket_def adt_onPosition_def stopAutoTracking_def Let_def
      split: option.splits)

lemma adt_step_silent:
  assumes "\<not> truthy (adt_driverId t)"
  shows "locationsSent (adt_sent (adt_step e t)) = locationsSent (adt_sent t)"
  using assms
  by (cases e)
    (auto simp: adt_onopen_def adt_onclose_def adt_startHeartbeat_def adt_stopHeartbeat_def
      adt_sendPing_def adt_connectSocket_def adt_onPosition_def stopAutoTracking_def Let_def
      adt_sendLocationUpdate_guard adt_transmit_count isLocation_def
      split: option.splits)

lemma adt_run_silent:
  "\<not> truthy (adt_driverId t) \<Longrightarrow> locationsSent (adt_sent (adt_run es t)) = locationsSent (adt_sent t)"
  unfolding adt_run_def
  by (induction es arbitrary: t) (simp_all add: adt_step_silent)

lemma adt_step_guard:
  assumes "locationsSent (adt_sent (adt_step e t)) \<noteq> locationsSent (adt_sent t)"
  shows "adt_wsOpen (adt_step e t) \<and> truthy (adt_driverId (adt_step e t))
         \<and> adt_currentPosition (adt_step e t) \<noteq> None"
  using assms
  by (cases e)
    (auto simp: adt_onopen_def adt_onclose_def adt_startHeartbeat_def adt_stopHeartbeat_def
      adt_sendPing_def adt_connectSocket_def adt_onPosition_def stopAutoTracking_def Let_def
      adt_sendLocationUpdate_guard adt_transmit_count isLocation_def
      split: option.splits if_splits)

lemma ls_transmit_fields [simp]:
  "ls_sockets (ls_transmit m x) = ls_sockets x"
  "webSocketRef (ls_transmit m x) = webSocketRef x"
  "broadcastIntervalRef (ls_transmit m x) = broadcastIntervalRef x"
  "pickupAlerts (ls_transmit m x) = pickupAlerts x"
  "ls_wsOpen (ls_transmit m x) = ls_wsOpen x"
  by (simp_all add: ls_transmit_def ls_wsOpen_def split: option.splits)

lemma sendLocationUpdate_fields [simp]:
  "ls_sockets (sendLocationUpdate r x) = ls_sockets x"
  "webSocketRef (sendLocationUpdate r x) = webSocketRef x"
  "broadcastIntervalRef (sendLocationUpdate r x) = broadcastIntervalRef x"
  "pickupAlerts (sendLocationUpdate r x) = pickupAlerts x"
  "ls_wsOpen (sendLocationUpdate r x) = ls_wsOpen x"
  by (simp_all add: sendLocationUpdate_def split: option.splits)

lemma sendLocationUpdate_sent:
  "ls_sent (sendLocationUpdate r x) =
     (case (webSocketRef x, currentPosition r) of
        (Some i, Some pos) \<Rightarrow>
          if ls_wsOpen x \<and> driverId r \<noteq> []
          then ls_sent x @ [(i, location \<lparr>snap_driverId = driverId r, snap_position = pos,
                 snap_phase = tripPhase r, snap_pickup = pickupCoordinate r,
                 snap_drop = dropCoordinate r, snap_pickupAddress = locationFrom r,
                 snap_dropAddress = locationTo r\<rparr>)]
          else ls_sent x
      | _ \<Rightarrow> ls_sent x)"
  by (auto simp: sendLocationUpdate_def ls_transmit_def ls_wsOpen_def socketState_def split: option.splits)


lemma sendLocationUpdate_unknown:
  "driverId r = [] \<Longrightarrow> sendLocationUpdate r x = x"
  by (simp add: sendLocationUpdate_def split: option.splits)

lemma ls_transmit_count:
  "\<not> isLocation (0, m) \<Longrightarrow> locationsSent (ls_sent (ls_transmit m x)) = locationsSent (ls_sent x)"
  by (simp add: ls_transmit_def locationsSent_def isLocation_def split: option.splits)

lemma sendLocationUpdate_guard:
  "ls_sent (sendLocationUpdate r x) \<noteq> ls_sent x \<Longrightarrow>
     ls_wsOpen x \<and> driverId r \<noteq> [] \<and> currentPosition r \<noteq> None"
  by (auto simp: sendLocationUpdate_sent split: option.splits if_splits)

lemma pickupArrivalEffect_eq:
  "pickupArrivalEffect r (p, x) =
     (if pickupDue r then (p\<lparr>hasPromptedPickup := True\<rparr>, x\<lparr>pickupAlerts := Suc (pickupAlerts x)\<rparr>)
      else (p, x))"
  by (simp add: pickupArrivalEffect_def pickupDue_def split: option.splits)

lemma dropArrivalEffect_eq:
  "dropArrivalEffect r (p, x) =
     (if dropDue r then (p\<lparr>tripPhase := completed\<rparr>, stopBroadcasting (sendLocationUpdate r x))
      else (p, x))"
  by (simp add: dropArrivalEffect_def dropDue_def split: option.splits)

lemma watchCallback_eq: "watchCallback pos (p, x) = (p\<lparr>currentPosition := Some pos\<rparr>, x)"
  by (simp add: watchCallback_def sendLocationUpdate_unknown initialRender_def)

lemma render_neq:
  "hasPromptedPickup a \<noteq> hasPromptedPickup b \<Longrightarrow> a \<noteq> b"
  "tripPhase a \<noteq> tripPhase b \<Longrightarrow> a \<noteq> b"
  by auto

lemma quiet_refl: "quiet s s"
  by (simp add: quiet_def)

lemma quiet_trans: "quiet a b \<Longrightarrow> quiet b c \<Longrightarrow> quiet a c"
  by (simp add: quiet_def)

lemma quiet_pickup: "quiet s (pickupArrivalEffect r s)"
  by (cases s) (simp add: quiet_def pickupArrivalEffect_eq)

lemma quiet_drop: "driverId r = [] \<Longrightarrow> quiet s (dropArrivalEffect r s)"
  by (cases s) (simp add: quiet_def dropArrivalEffect_eq sendLocationUpdate_unknown stopBroadcasting_def)

lemma quiet_broadcast: "driverId r = [] \<Longrightarrow> quiet s (phaseBroadcastEffect r s)"
  by (cases s) (simp add: quiet_def phaseBroadcastEffect_def sendLocationUpdate_unknown)

lemma quiet_arrival: "driverId r = [] \<Longrightarrow> quiet s (arrivalEffects r s)"
  unfolding arrivalEffects_def
  by (blast intro: quiet_trans quiet_pickup quiet_drop quiet_broadcast)

lemma quiet_rerun: "driverId (fst s) = [] \<Longrightarrow> quiet s (rerunEffects prev s)"
proof -
  assume u: "driverId (fst s) = []"
  define s1 where "s1 = (if pickupDeps prev \<noteq> pickupDeps (fst s) then pickupArrivalEffect (fst s) s else s)"
  define s2 where "s2 = (if dropDeps prev \<noteq> dropDeps (fst s) then dropArrivalEffect (fst s) s1 else s1)"
  define s3 where "s3 = (if broadcastDeps prev \<noteq> broadcastDeps (fst s) then phaseBroadcastEffect (fst s) s2 else s2)"
  have a: "quiet s s1" by (simp add: s1_def quiet_pickup quiet_refl)
  have b: "quiet s1 s2" using u by (simp add: s2_def quiet_drop quiet_refl)
  have c: "quiet s2 s3" using u by (simp add: s3_def quiet_broadcast quiet_refl)
  have "rerunEffects prev s = s3"
    by (simp add: rerunEffects_def Let_def s1_def s2_def s3_def)
  with a b c show ?thesis by (auto intro: quiet_trans)
qed

lemma quiet_rerender: "driverId (fst s) = [] \<Longrightarrow> quiet s (rerender prev s)"
proof -
  assume u: "driverId (fst s) = []"
  then have q1: "quiet s (rerunEffects prev s)" by (rule quiet_rerun)
  then have "driverId (fst (rerunEffects prev s)) = []" using u by (simp add: quiet_def)
  then have "quiet (rerunEffects prev s) (rerunEffects (fst s) (rerunEffects prev s))"
    by (rule quiet_rerun)
  with q1 show ?thesis
    unfolding rerender_def Let_def by (auto intro: quiet_trans)
qed

lemma quiet_position: "driverId (fst s) = [] \<Longrightarrow> quiet s (positionUpdate pos s)"
proof -
  assume u: "driverId (fst s) = []"
  obtain p x where s: "s = (p, x)" by (cases s)
  let ?s1 = "watchCallback pos s"
  have q0: "quiet s ?s1" using u by (simp add: s watchCallback_eq quiet_def)
  then have u1: "driverId (fst ?s1) = []" using u by (simp add: quiet_def)
  then have q1: "quiet ?s1 (arrivalEffects (fst ?s1) ?s1)" by (rule quiet_arrival)
  then have "driverId (fst (arrivalEffects (fst ?s1) ?s1)) = []" using u1 by (simp add: quiet_def)
  then have q2: "quiet (arrivalEffects (fst ?s1) ?s1) (rerunEffects (fst ?s1) (arrivalEffects (fst ?s1) ?s1))"
    by (rule quiet_rerun)
  from q0 q1 q2 show ?thesis
    unfolding positionUpdate_def Let_def by (auto intro: quiet_trans)
qed

lemma quiet_notYet: "driverId (fst s) = [] \<Longrightarrow> quiet s (pressNotYet s)"
proof -
  assume u: "driverId (fst s) = []"
  have q0: "quiet s (alertNotYet s)" by (cases s) (simp add: alertNotYet_def quiet_def)
  then have "driverId (fst (alertNotYet s)) = []" using u by (simp add: quiet_def)
  then have "quiet (alertNotYet s) (rerender (fst s) (alertNotYet s))" by (rule quiet_rerender)
  with q0 show ?thesis unfolding pressNotYet_def by (rule quiet_trans)
qed

lemma quiet_startDrop:
  "driverId (fst s) = [] \<Longrightarrow> driverId r = [] \<Longrightarrow> quiet s (pressStartDropNavigation r s)"
proof -
  assume u: "driverId (fst s) = []" and r: "driverId r = []"
  have q0: "quiet s (alertStartDropNavigation r s)"
    using r by (cases s) (simp add: alertStartDropNavigation_def quiet_def sendLocationUpdate_unknown)
  then have "driverId (fst (alertStartDropNavigation r s)) = []" using u by (simp add: quiet_def)
  then have "quiet (alertStartDropNavigation r s) (rerender (fst s) (alertStartDropNavigation r s))"
    by (rule quiet_rerender)
  with q0 show ?thesis unfolding pressStartDropNavigation_def by (rule quiet_trans)
qed

lemma quiet_onopen: "driverId r = [] \<Longrightarrow> quiet (p, x) (ls_onopen i r (p, y)) = quiet (p, x) (p, y)"
  by (simp add: ls_onopen_def quiet_def Let_def sendLocationUpdate_unknown startBroadcasting_def)

lemma quiet_close: "driverId r = [] \<Longrightarrow> quiet s (closeWebSocket r s)"
  by (cases s)
    (simp add: closeWebSocket_def quiet_def Let_def stopBroadcasting_def ls_transmit_count isLocation_def
      split: option.splits)

lemma ls_step_quiet:
  assumes "driverId (fst s) = []" "closureUnknown e"
  shows "quiet s (ls_step e s)"
proof -
  obtain p x where s: "s = (p, x)" by (cases s)
  show ?thesis
  proof (cases e)
    case (BroadcastTick r)
    with assms show ?thesis by (simp add: s quiet_def sendLocationUpdate_unknown)
  next
    case (ScreenSocketOpened i r)
    with assms show ?thesis
      by (simp add: s quiet_onopen split: option.splits) (simp add: quiet_def)
  next
    case (ScreenSocketClosed i)
    then show ?thesis
      by (simp add: s quiet_def ls_onclose_def stopBroadcasting_def Let_def split: option.splits)
  next
    case (ScreenReconnectTimer r)
    with assms show ?thesis by (simp add: s quiet_def connectWebSocket_def)
  next
    case ScreenHeartbeat
    then show ?thesis
      by (simp add: s quiet_def ls_heartbeat_def ls_transmit_count isLocation_def)
  next
    case (PositionUpdate pos)
    with assms quiet_position [of s pos] show ?thesis by (simp add: s)
  next
    case PressNotYet
    with assms quiet_notYet [of s] show ?thesis by (simp add: s)
  next
    case (PressStartDrop r)
    with assms quiet_startDrop [of s r] show ?thesis by (simp add: s)
  next
    case (Unmount r)
    with assms quiet_close [of r s] show ?thesis by (simp add: s)
  qed
qed

lemma ls_run_quiet:
  "driverId (fst s) = [] \<Longrightarrow> \<forall>e \<in> set es. closureUnknown e \<Longrightarrow> quiet s (fold ls_step es s)"
proof (induction es arbitrary: s)
  case Nil
  then show ?case by (simp add: quiet_refl)
next
  case (Cons e es)
  then have q: "quiet s (ls_step e s)" by (simp add: ls_step_quiet)
  then have "driverId (fst (ls_step e s)) = []" using Cons.prems(1) by (simp add: quiet_def)
  with Cons have "quiet (ls_step e s) (fold ls_step es (ls_step e s))" by simp
  with q show ?case by (auto intro: quiet_trans)
qed

text \<open>
  C3. A location message leaves only when the socket is open and the driver id and the
  position are known: this holds for \<open>sendLocationUpdate\<close> of the screen and for every
  step of the tracking service. While the driver id is unknown no run of events (ticks
  of the broadcast loop, position fixes, socket events, timers, button presses) sends
  a location message, on the screen or in the service: the number sent stays what it was.
\<close>

theorem snapshot_needs_identity_and_position:
  "(ls_sent (sendLocationUpdate r x) \<noteq> ls_sent x \<longrightarrow>
      ls_wsOpen x \<and> driverId r \<noteq> [] \<and> currentPosition r \<noteq> None)
   \<and> (locationsSent (adt_sent (adt_step e t)) \<noteq> locationsSent (adt_sent t) \<longrightarrow>
        adt_wsOpen (adt_step e t) \<and> truthy (adt_driverId (adt_step e t))
        \<and> adt_currentPosition (adt_step e t) \<noteq> None)
   \<and> (driverId (fst s) = [] \<and> (\<forall>ev \<in> set es. closureUnknown ev) \<longrightarrow>
        locationsSent (ls_sent (snd (fold ls_step es s))) = locationsSent (ls_sent (snd s)))
   \<and> (\<not> truthy (adt_driverId t) \<longrightarrow>
        locationsSent (adt_sent (adt_run aes t)) = locationsSent (adt_sent t))"
  using sendLocationUpdate_guard [of r x] adt_step_guard [of e t] ls_run_quiet [of s es]
    adt_run_silent [of t aes]
  by (simp add: quiet_def)

theorem snapshot_needs_identity_and_position_witness:
  "driverId (fst (anonymousRender, onlineRefs)) = []
   \<and> closureUnknown (BroadcastTick anonymousRender) \<and> closureUnknown (PositionUpdate pointFar)
   \<and> locationsSent (ls_sent (snd (fold ls_step
        [BroadcastTick anonymousRender, PositionUpdate pointFar, BroadcastTick anonymousRender]
        (anonymousRender, onlineRefs)))) = 0
   \<and> \<not> truthy (adt_driverId anonymousTracker)
   \<and> locationsSent (adt_sent (adt_run [PositionFix pointZero, HeartbeatTick, PositionFix pointFar] anonymousTracker)) = 0"
proof -
  have a: "driverId (fst (anonymousRender, onlineRefs)) = []"
    "\<forall>ev \<in> set [BroadcastTick anonymousRender, PositionUpdate pointFar, BroadcastTick anonymousRender].
       closureUnknown ev"
    "locationsSent (ls_sent (snd (anonymousRender, onlineRefs))) = 0"
    by (simp_all add: anonymousRender_def initialRender_def onlineRefs_def offlineRefs_def locationsSent_def)
  have b: "\<not> truthy (adt_driverId anonymousTracker)" "locationsSent (adt_sent anonymousTracker) = 0"
    by (simp_all add: anonymousTracker_def onlineTracker_def truthy_def locationsSent_def)
  from snapshot_needs_identity_and_position
    [where s = "(anonymousRender, onlineRefs)"
       and es = "[BroadcastTick anonymousRender, PositionUpdate pointFar, BroadcastTick anonymousRender]"
       and t = anonymousTracker and aes = "[PositionFix pointZero, HeartbeatTick, PositionFix pointFar]"]
    a b
  show ?thesis by simp
qed

lemma tracker_sends_when_known:
  "locationsSent (adt_sent (adt_run [PositionFix pointFar] onlineTracker)) = 1"
proof -
  let ?t = "onlineTracker\<lparr>adt_currentPosition := Some pointFar\<rparr>"
  have "adt_wsOpen ?t" "truthy (adt_driverId ?t)" "adt_currentPosition ?t \<noteq> None"
    "locationsSent (adt_sent ?t) = 0"
    by (simp_all add: onlineTracker_def adt_wsOpen_def socketState_def openSocket_def truthy_def
        locationsSent_def)
  then show ?thesis
    by (simp add: adt_run_def adt_onPosition_def adt_sendLocationUpdate_guard)
qed

section \<open>Properties of the arrival effects\<close>

lemma arrival_to_pickup:
  assumes "tripPhase r = to_pickup"
  shows "arrivalEffects r (r, x) =
           (if pickupDue r
            then (r\<lparr>hasPromptedPickup := True\<rparr>, sendLocationUpdate r (x\<lparr>pickupAlerts := Suc (pickupAlerts x)\<rparr>))
            else (r, sendLocationUpdate r x))"
  using assms
  by (simp add: arrivalEffects_def pickupArrivalEffect_eq dropArrivalEffect_eq dropDue_def
      phaseBroadcastEffect_def split: option.splits)

lemma rerun_after_prompt:
  assumes "tripPhase r = to_pickup" "\<not> hasPromptedPickup r"
  shows "rerunEffects r (r\<lparr>hasPromptedPickup := True\<rparr>, y) = (r\<lparr>hasPromptedPickup := True\<rparr>, y)"
  using assms
  by (simp add: rerunEffects_def pickupDeps_def dropDeps_def broadcastDeps_def sendDeps_def
      pickupArrivalEffect_eq pickupDue_def Let_def split: option.splits)

lemma positionUpdate_to_pickup:
  assumes "tripPhase r = to_pickup"
  shows "positionUpdate pos (r, x) =
     (let r1 = r\<lparr>currentPosition := Some pos\<rparr>
      in if pickupDue r1
         then (r1\<lparr>hasPromptedPickup := True\<rparr>, sendLocationUpdate r1 (x\<lparr>pickupAlerts := Suc (pickupAlerts x)\<rparr>))
         else (r1, sendLocationUpdate r1 x))"
proof -
  let ?r1 = "r\<lparr>currentPosition := Some pos\<rparr>"
  have ph: "tripPhase ?r1 = to_pickup" using assms by simp
  show ?thesis
  proof (cases "pickupDue ?r1")
    case True
    then have np: "\<not> hasPromptedPickup ?r1" by (auto simp: pickupDue_def split: option.splits)
    have ne: "?r1\<lparr>hasPromptedPickup := True\<rparr> \<noteq> ?r1"
      using np by (intro render_neq(1)) simp
    show ?thesis
      using True ne rerun_after_prompt [OF ph np]
      by (simp add: positionUpdate_def watchCallback_eq arrival_to_pickup [OF ph] Let_def)
  next
    case False
    then show ?thesis
      by (simp add: positionUpdate_def watchCallback_eq arrival_to_pickup [OF ph] Let_def)
  qed
qed

lemma positionUpdate_prompt:
  assumes "tripPhase r = to_pickup" "pickupCoordinate r = Some pk" "\<not> hasPromptedPickup r"
    and "haversineDistanceInMeters pos pk \<le> ARRIVAL_THRESHOLD_METERS"
  shows "fst (positionUpdate pos (r, x)) = r\<lparr>currentPosition := Some pos, hasPromptedPickup := True\<rparr>"
    and "pickupAlerts (snd (positionUpdate pos (r, x))) = Suc (pickupAlerts x)"
  using assms by (simp_all add: positionUpdate_to_pickup pickupDue_def Let_def)

lemma positionUpdate_far:
  assumes "tripPhase r = to_pickup" "pickupCoordinate r = Some pk"
    and "\<not> haversineDistanceInMeters pos pk \<le> ARRIVAL_THRESHOLD_METERS"
  shows "fst (positionUpdate pos (r, x)) = r\<lparr>currentPosition := Some pos\<rparr>"
    and "pickupAlerts (snd (positionUpdate pos (r, x))) = pickupAlerts x"
  using assms by (simp_all add: positionUpdate_to_pickup pickupDue_def Let_def)

lemma positionUpdate_pending:
  assumes "tripPhase r = to_pickup" "hasPromptedPickup r"
  shows "fst (positionUpdate pos (r, x)) = r\<lparr>currentPosition := Some pos\<rparr>"
    and "pickupAlerts (snd (positionUpdate pos (r, x))) = pickupAlerts x"
  using assms by (simp_all add: positionUpdate_to_pickup pickupDue_def Let_def split: option.splits)

lemma updates_pending:
  assumes "tripPhase r = to_pickup" "hasPromptedPickup r"
  shows "tripPhase (fst (fold positionUpdate ps (r, x))) = to_pickup
       \<and> hasPromptedPickup (fst (fold positionUpdate ps (r, x)))
       \<and> pickupCoordinate (fst (fold positionUpdate ps (r, x))) = pickupCoordinate r
       \<and> pickupAlerts (snd (fold positionUpdate ps (r, x))) = pickupAlerts x"
  using assms
proof (induction ps arbitrary: r x)
  case Nil
  then show ?case by simp
next
  case (Cons pos ps)
  obtain r' x' where s: "positionUpdate pos (r, x) = (r', x')" by (cases "positionUpdate pos (r, x)")
  from positionUpdate_pending [OF Cons.prems, of pos x] s
  have r': "r' = r\<lparr>currentPosition := Some pos\<rparr>" and x': "pickupAlerts x' = pickupAlerts x"
    by simp_all
  from Cons.IH [of r' x'] Cons.prems r' x' s show ?case by simp
qed

lemma updates_count:
  assumes "tripPhase r = to_pickup" "pickupCoordinate r = Some pk" "\<not> hasPromptedPickup r"
  shows "pickupAlerts (snd (fold positionUpdate ps (r, x))) =
           pickupAlerts x + (if \<exists>pos \<in> set ps. nearPickup pk pos then 1 else 0)
       \<and> hasPromptedPickup (fst (fold positionUpdate ps (r, x))) = (\<exists>pos \<in> set ps. nearPickup pk pos)
       \<and> tripPhase (fst (fold positionUpdate ps (r, x))) = to_pickup
       \<and> pickupCoordinate (fst (fold positionUpdate ps (r, x))) = Some pk"
  using assms
proof (induction ps arbitrary: r x)
  case Nil
  then show ?case by simp
next
  case (Cons pos ps)
  obtain r' x' where s: "positionUpdate pos (r, x) = (r', x')" by (cases "positionUpdate pos (r, x)")
  show ?case
  proof (cases "nearPickup pk pos")
    case True
    with positionUpdate_prompt [OF Cons.prems, of pos x] s
    have r': "r' = r\<lparr>currentPosition := Some pos, hasPromptedPickup := True\<rparr>"
      and x': "pickupAlerts x' = Suc (pickupAlerts x)"
      by (simp_all add: nearPickup_def)
    from updates_pending [of r' ps x'] r' x' Cons.prems True s show ?thesis by simp
  next
    case False
    with positionUpdate_far [OF Cons.prems(1,2), of pos x] s
    have r': "r' = r\<lparr>currentPosition := Some pos\<rparr>" and x': "pickupAlerts x' = pickupAlerts x"
      by (simp_all add: nearPickup_def)
    from Cons.IH [of r' x'] r' x' Cons.prems False s show ?thesis by simp
  qed
qed

lemma updates_last:
  assumes "tripPhase r = to_pickup" "ps \<noteq> []"
  shows "currentPosition (fst (fold positionUpdate ps (r, x))) = Some (last ps)
       \<and> tripPhase (fst (fold positionUpdate ps (r, x))) = to_pickup"
  using assms
proof (induction ps arbitrary: r x)
  case Nil
  then show ?case by simp
next
  case (Cons pos ps)
  obtain r' x' where s: "positionUpdate pos (r, x) = (r', x')" by (cases "positionUpdate pos (r, x)")
  with positionUpdate_to_pickup [OF Cons.prems(1), of pos x] Cons.prems(1)
  have r': "tripPhase r' = to_pickup" "currentPosition r' = Some pos"
    by (auto simp: Let_def split: if_splits)
  show ?case
  proof (cases "ps = []")
    case True
    with r' s show ?thesis by simp
  next
    case False
    with Cons.IH [OF r'(1) False, of x'] s show ?thesis by simp
  qed
qed

lemma pressNotYet_reprompt:
  assumes "tripPhase r = to_pickup" "pickupCoordinate r = Some pk" "hasPromptedPickup r"
    and "currentPosition r = Some pos"
  shows "pickupAlerts (snd (pressNotYet (r, x))) = pickupAlerts x + (if nearPickup pk pos then 1 else 0)"
    and "hasPromptedPickup (fst (pressNotYet (r, x))) = nearPickup pk pos"
    and "tripPhase (fst (pressNotYet (r, x))) = to_pickup"
    and "pickupCoordinate (fst (pressNotYet (r, x))) = Some pk"
proof -
  let ?r0 = "r\<lparr>hasPromptedPickup := False\<rparr>"
  have due: "pickupDue ?r0 = nearPickup pk pos"
    using assms by (simp add: pickupDue_def nearPickup_def)
  have first: "rerunEffects r (?r0, x) =
      (if nearPickup pk pos then (?r0\<lparr>hasPromptedPickup := True\<rparr>, x\<lparr>pickupAlerts := Suc (pickupAlerts x)\<rparr>)
       else (?r0, x))"
    using assms(3) due
    by (simp add: rerunEffects_def pickupDeps_def dropDeps_def broadcastDeps_def sendDeps_def
        pickupArrivalEffect_eq Let_def)
  have ph: "tripPhase ?r0 = to_pickup" "\<not> hasPromptedPickup ?r0" using assms by simp_all
  have ne: "?r0\<lparr>hasPromptedPickup := True\<rparr> \<noteq> ?r0"
    by (intro render_neq(1)) simp
  have res: "pressNotYet (r, x) =
      (if nearPickup pk pos then (?r0\<lparr>hasPromptedPickup := True\<rparr>, x\<lparr>pickupAlerts := Suc (pickupAlerts x)\<rparr>)
       else (?r0, x))"
    using ne rerun_after_prompt [OF ph]
    by (simp add: pressNotYet_def rerender_def alertNotYet_def first Let_def)
  show "pickupAlerts (snd (pressNotYet (r, x))) = pickupAlerts x + (if nearPickup pk pos then 1 else 0)"
    and "hasPromptedPickup (fst (pressNotYet (r, x))) = nearPickup pk pos"
    and "tripPhase (fst (pressNotYet (r, x))) = to_pickup"
    and "pickupCoordinate (fst (pressNotYet (r, x))) = Some pk"
    using assms by (simp_all add: res)
qed

text \<open>
  C1. In phase \<open>to_pickup\<close> with the pickup coordinate known and no prompt pending, a
  position update within 120 m of the pickup shows the "Reached pickup?" prompt and marks
  it pending, and the phase itself stays \<open>to_pickup\<close>. However many nearby updates
  follow, the prompt has been shown exactly once. After the driver answers "Not yet"
  the prompt comes once more (at once, the driver still being near) and again only once.
\<close>

theorem pickup_prompt_exactly_once:
  assumes "tripPhase r = to_pickup" and "pickupCoordinate r = Some pk" and "\<not> hasPromptedPickup r"
    and "ps \<noteq> []" and "\<forall>pos \<in> set ps. haversineDistanceInMeters pos pk \<le> 120"
  shows "pickupAlerts (snd (positionUpdate (hd ps) (r, x))) = Suc (pickupAlerts x)
       \<and> hasPromptedPickup (fst (positionUpdate (hd ps) (r, x)))
       \<and> pickupAlerts (snd (fold positionUpdate ps (r, x))) = Suc (pickupAlerts x)
       \<and> hasPromptedPickup (fst (fold positionUpdate ps (r, x)))
       \<and> tripPhase (fst (fold positionUpdate ps (r, x))) = to_pickup
       \<and> pickupAlerts (snd (fold positionUpdate qs (pressNotYet (fold positionUpdate ps (r, x)))))
           = Suc (Suc (pickupAlerts x))"
proof -
  from assms(4) have hd: "hd ps \<in> set ps" and la: "last ps \<in> set ps" by simp_all
  with assms(5) have nh: "haversineDistanceInMeters (hd ps) pk \<le> ARRIVAL_THRESHOLD_METERS"
    and nl: "nearPickup pk (last ps)"
    by (simp_all add: ARRIVAL_THRESHOLD_METERS_def nearPickup_def)
  have ex: "\<exists>pos \<in> set ps. nearPickup pk pos" using la nl by blast
  note first = positionUpdate_prompt [OF assms(1-3) nh, of x]
  note all = updates_count [OF assms(1-3), of ps x]
  obtain r' x' where s: "fold positionUpdate ps (r, x) = (r', x')"
    by (cases "fold positionUpdate ps (r, x)")
  from all ex s have r': "tripPhase r' = to_pickup" "pickupCoordinate r' = Some pk" "hasPromptedPickup r'"
    and x': "pickupAlerts x' = Suc (pickupAlerts x)"
    by simp_all
  from updates_last [OF assms(1,4), of x] s have cp: "currentPosition r' = Some (last ps)" by simp
  obtain r'' x'' where n: "pressNotYet (r', x') = (r'', x'')" by (cases "pressNotYet (r', x')")
  from pressNotYet_reprompt [OF r' cp, of x'] n nl
  have r'': "tripPhase r'' = to_pickup" "hasPromptedPickup r''"
    and x'': "pickupAlerts x'' = Suc (Suc (pickupAlerts x))"
    by (simp_all add: x')
  from updates_pending [OF r'', of qs x''] x''
  have "pickupAlerts (snd (fold positionUpdate qs (r'', x''))) = Suc (Suc (pickupAlerts x))" by simp
  with first all ex s n show ?thesis by simp
qed

theorem pickup_prompt_exactly_once_witness:
  "tripPhase toPickupRender = to_pickup \<and> pickupCoordinate toPickupRender = Some pointZero
   \<and> \<not> hasPromptedPickup toPickupRender \<and> [pointZero, pointZero, pointZero] \<noteq> []
   \<and> haversineDistanceInMeters pointZero pointZero \<le> 120
   \<and> pickupAlerts (snd (fold positionUpdate [pointZero, pointZero, pointZero] (toPickupRender, offlineRefs))) = 1
   \<and> pickupAlerts (snd (fold positionUpdate [pointZero]
        (pressNotYet (fold positionUpdate [pointZero, pointZero, pointZero] (toPickupRender, offlineRefs))))) = 2"
proof -
  have h: "tripPhase toPickupRender = to_pickup" "pickupCoordinate toPickupRender = Some pointZero"
    "\<not> hasPromptedPickup toPickupRender" "[pointZero, pointZero, pointZero] \<noteq> []"
    by (simp_all add: toPickupRender_def initialRender_def)
  have n: "\<forall>pos \<in> set [pointZero, pointZero, pointZero]. haversineDistanceInMeters pos pointZero \<le> 120"
    by (simp add: haversine_same)
  have a: "pickupAlerts offlineRefs = 0" by (simp add: offlineRefs_def)
  from pickup_prompt_exactly_once [OF h n, of offlineRefs "[pointZero]"] h a
  show ?thesis by (simp add: haversine_same)
qed






section \<open>Properties of the teardown operations\<close>



lemma stopAutoTracking_effect:
  assumes "adt_ws t = Some i" "adt_sockets t i = Some s"
  shows "adt_sent (stopAutoTracking t) =
           adt_sent t @ (if readyState s = OPEN then [(i, DRIVER_DISCONNECT (adt_driverId t) (adt_cabNumber t))] else [])"
    and "adt_sockets (stopAutoTracking t) i =
           Some (s\<lparr>readyState := (if readyState s = CLOSED then CLOSED else CLOSING),
                   closeCalls := closeCalls s @ [None]\<rparr>)"
    and "adt_ws (stopAutoTracking t) = None"
    and "adt_reconnectTimer (stopAutoTracking t) = None"
    and "\<not> adt_heartbeat (stopAutoTracking t)"
    and "adt_reconnectAttempts (stopAutoTracking t) = adt_reconnectAttempts t"
  using assms
  by (auto simp: stopAutoTracking_def adt_wsOpen_def socketState_def adt_transmit_def closeSocket_def
      adt_stopHeartbeat_def Let_def)

lemma closeWebSocket_effect:
  assumes "webSocketRef x = Some i" "ls_sockets x i = Some s"
  shows "ls_sent (snd (closeWebSocket r (p, x))) =
           ls_sent x @ (if readyState s = OPEN then [(i, DRIVER_DISCONNECT (Some (driverId r)) (Some (cabNumber r)))] else [])"
    and "ls_sockets (snd (closeWebSocket r (p, x))) i =
           Some (s\<lparr>readyState := (if readyState s = CLOSED then CLOSED else CLOSING),
                   closeCalls := closeCalls s @ [None]\<rparr>)"
    and "webSocketRef (snd (closeWebSocket r (p, x))) = None"
    and "\<not> reconnectTimeoutRef (snd (closeWebSocket r (p, x)))"
    and "\<not> heartbeatRef (snd (closeWebSocket r (p, x)))"
    and "\<not> broadcastIntervalRef (snd (closeWebSocket r (p, x)))"
  using assms
  by (auto simp: closeWebSocket_def ls_wsOpen_def socketState_def ls_transmit_def closeSocket_def
      stopBroadcasting_def Let_def)




text \<open>
  The two driver-side operations leave the \<^verbatim>\<open>onclose\<close> handler on the socket they close.
  When the platform then delivers the close event, the handler schedules a reconnect, and
  the timer opens a new socket.
\<close>

lemma stopAutoTracking_then_close_event:
  assumes "adt_ws t = Some i" "adt_sockets t i = Some s" "readyState s = OPEN" "handlersAttached s"
  shows "adt_reconnectTimer (adt_step (SocketClosed i) (stopAutoTracking t))
           = Some (min (2000 * 2 ^ Suc (adt_reconnectAttempts t)) 30000)"
proof -
  from stopAutoTracking_effect(2,6) [OF assms(1,2)] assms(3,4)
  show ?thesis
    by (simp add: adt_onclose_delay)
qed

lemma closeWebSocket_then_close_event:
  assumes "webSocketRef x = Some i" "ls_sockets x i = Some s" "readyState s = OPEN" "handlersAttached s"
  shows "reconnectTimeoutRef (snd (ls_step (ScreenSocketClosed i) (closeWebSocket r (p, x))))"
proof -
  obtain p' x' where c: "closeWebSocket r (p, x) = (p', x')" by (cases "closeWebSocket r (p, x)")
  from closeWebSocket_effect(2) [OF assms(1,2), of r p] assms(3,4) c
  show ?thesis
    by (simp add: c ls_onclose_def stopBroadcasting_def)
qed

lemma stopAutoTracking_reconnects_example:
  "adt_reconnectTimer (adt_run [StopAutoTracking, SocketClosed 0] onlineTracker) = Some 4000
   \<and> adt_ws (adt_run [StopAutoTracking, SocketClosed 0, ReconnectTimerFired] onlineTracker) = Some 1"
proof -
  have h: "adt_ws onlineTracker = Some 0" "adt_sockets onlineTracker 0 = Some openSocket"
    "readyState openSocket = OPEN" "handlersAttached openSocket"
    "adt_reconnectAttempts onlineTracker = 0"
    by (simp_all add: onlineTracker_def openSocket_def)
  define t1 where "t1 = adt_step (SocketClosed 0) (stopAutoTracking onlineTracker)"
  have r: "adt_reconnectTimer t1 = Some 4000"
    unfolding t1_def using stopAutoTracking_then_close_event [OF h(1-4)] h(5) by simp
  have w: "adt_ws t1 = None" "truthy (adt_driverId t1)" "adt_created t1 = 1"
    unfolding t1_def
    by (simp_all add: stopAutoTracking_def onlineTracker_def openSocket_def adt_wsOpen_def socketState_def
        adt_transmit_def closeSocket_def adt_stopHeartbeat_def adt_onclose_def truthy_def Let_def)
  have "adt_ws (adt_step ReconnectTimerFired t1) = Some 1"
    using r w by (simp add: adt_connectSocket_def socketState_def)
  with r show ?thesis by (simp add: adt_run_def t1_def)
qed

end
